theory Spec2Isabelle
  imports Main "HOL-Library.Word" "HOL-Library.Multiset" "HOL-Library.Char_ord"
    "HOL-Library.List_Lexorder"
begin

section \<open>Shared data model\<close>

text \<open>
  The chat service drives a model provider through one of two adapters (package
  \<^verbatim>\<open>vertex\<close> and package \<^verbatim>\<open>anthropic\<close>), both implementing
  \<^verbatim>\<open>Completion(ctx, req) (*llm.CompletionResponse, error)\<close>, and the gRPC handler
  \<^verbatim>\<open>PostMessage\<close> of package \<^verbatim>\<open>chat\<close> calls whichever adapter serves the requested model.

  Conventions of the embedding:
  \<^item> A Go \<^verbatim>\<open>error\<close> value is identified with its message (\<open>go_error\<close>). A function
    of this repository returns \<open>failure + 'a\<close>: \<open>Inl (Error e)\<close> is a returned error,
    \<open>Inl (Panic p)\<close> a run-time panic (index out of range, nil dereference).
  \<^item> A pair \<^verbatim>\<open>(*T, error)\<close> with a nil error is \<open>Inr (Some t)\<close>, or \<open>Inr None\<close> when the
    pointer is nil as well (\<^verbatim>\<open>return nil, nil\<close>).
  \<^item> Everything outside the process (the provider, the tool handlers, the database) is an
    oracle on an abstract world \<open>'w\<close>: it takes the world and returns a result and the new
    world. The \<^verbatim>\<open>context.Context\<close> argument is part of that world. Oracles return
    errors, they do not panic.
  \<^item> The calls that the properties below speak of (a round trip to the provider, a call of
    a tool handler, the call of the adapter, the writes of the thread and of the usage
    record) are appended to a trace, in the order the code makes them, with their arguments
    and results. Statements about how many round trips were made, and in which order, are
    statements about the trace. The other oracles only thread the world.
  \<^item> Go's \<^verbatim>\<open>int\<close> is 64 bits wide (\<open>64 word\<close>, read as signed by \<open>sint\<close>); \<^verbatim>\<open>int32\<close> is
    \<open>32 word\<close>. A \<^verbatim>\<open>float32\<close> is only copied, never computed with, and is kept as its
    bit pattern.
  \<^item> Pointers to structs that the code dereferences without a check (the request, the
    provider's response, a candidate's content) are taken to be non-nil.
\<close>

type_synonym go_error = string

datatype failure = Error go_error | Panic string

type_synonym float32 = "32 word"

text \<open>A decoded JSON value, as \<^verbatim>\<open>encoding/json\<close> stores it in an \<^verbatim>\<open>interface{}\<close>.\<close>

datatype json = JNull | JBool bool | JNumber "64 word" | JString string
  | JArray "json list" | JObject "(string \<times> json) list"

text \<open>\<^verbatim>\<open>map[string]interface{}\<close>: the arguments of a tool call.\<close>

type_synonym args = "(string \<times> json) list"

record ('w, 'e) st =
  world :: "'w"
  trace :: "'e list"

subsection \<open>Package llm\<close>

text \<open>
  The declarations of package \<^verbatim>\<open>llm\<close> that the adapters use are not among the source
  files; the records hold the fields the code reads and writes.
\<close>

record Message =
  msg_Role :: string
  msg_Content :: string

record ModelUsage =
  mu_UserId :: string
  mu_Model :: string
  InputTokens :: "64 word"
  OutputTokens :: "64 word"

record ParametersProperties =
  pp_Type :: string
  pp_Description :: string

record ToolParameters =
  tp_Type :: string
  tp_Properties :: "(string \<times> ParametersProperties) list"
  tp_Required :: "string list"

type_synonym 'w llm_FunctionCall = "'w \<Rightarrow> args \<Rightarrow> (go_error + string) \<times> 'w"

record 'w ToolDefinition =
  td_Name :: string
  td_Description :: string
  td_Parameters :: ToolParameters
  td_Call :: "'w llm_FunctionCall"

record 'w CompletionRequest =
  req_SystemPrompt :: string
  req_Messages :: "Message list"
  req_Model :: string
  req_MaxTokens :: "64 word"
  req_TopP :: float32
  req_Temperature :: float32
  req_UserId :: string
  req_Tools :: "'w ToolDefinition list"

record CompletionResponse =
  resp_Message :: "Message option"
  resp_Messages :: "Message list"
  resp_Usage :: ModelUsage

section \<open>The Vertex adapter\<close>

text \<open>The parts of a \<^verbatim>\<open>genai.Content\<close>: the implementations of the interface \<^verbatim>\<open>genai.Part\<close>.\<close>

datatype Part = Text string | Blob string string | FileData string string
  | FunctionCall string args | FunctionResponse string args

record genai_Content =
  gc_Role :: string
  gc_Parts :: "Part list"

record Candidate =
  cand_Content :: genai_Content

record UsageMetadata =
  PromptTokenCount :: "32 word"
  CandidatesTokenCount :: "32 word"

record GenerateContentResponse =
  Candidates :: "Candidate list"
  gen_UsageMetadata :: "UsageMetadata option"

typedecl genai_Tool

record GenerativeModel =
  gm_Name :: string
  gm_TopP :: float32
  gm_Temperature :: float32
  gm_MaxOutputTokens :: "32 word"
  gm_SystemInstruction :: genai_Content
  gm_Tools :: "genai_Tool list"

text \<open>
  What the adapter's \<^verbatim>\<open>Client\<close> is given: the chat session's \<^verbatim>\<open>SendMessage\<close> (called with
  the session's model, its \<^verbatim>\<open>History\<close> and the parts to send), and the functions and
  constants of the package declared outside the source files at hand
  (\<^verbatim>\<open>callTool\<close>, \<^verbatim>\<open>transformToHistory\<close>, \<^verbatim>\<open>getTools\<close>, \<^verbatim>\<open>modelPrefix\<close>,
  \<^verbatim>\<open>llm.RoleAssistant\<close>) together with \<^verbatim>\<open>json.Unmarshal\<close> into a map.
\<close>

record 'w vertex_Client =
  vc_SendMessage :: "'w \<Rightarrow> GenerativeModel \<Rightarrow> genai_Content list \<Rightarrow> Part list
    \<Rightarrow> (go_error + GenerateContentResponse) \<times> 'w"
  vc_callTool :: "'w \<Rightarrow> string \<Rightarrow> args \<Rightarrow> (go_error + string) \<times> 'w"
  vc_transformToHistory :: "Message list \<Rightarrow> go_error + genai_Content list"
  vc_getTools :: "genai_Tool list"
  vc_modelPrefix :: string
  vc_json_Unmarshal :: "string \<Rightarrow> go_error + args"
  vc_RoleAssistant :: string

datatype vertex_event =
  SendMessage_call GenerativeModel "genai_Content list" "Part list"
    "go_error + GenerateContentResponse"
  | callTool_call string args "go_error + string"

definition RoleUser :: string where
  "RoleUser = ''user''"

definition RoleModel :: string where
  "RoleModel = ''model''"

text \<open>\<^verbatim>\<open>strings.CutPrefix\<close>, first result.\<close>

definition CutPrefix :: "string \<Rightarrow> string \<Rightarrow> string" where
  "CutPrefix s p = (if take (length p) s = p then drop (length p) s else s)"

definition SendMessage :: "'w vertex_Client \<Rightarrow> GenerativeModel \<Rightarrow> genai_Content list
    \<Rightarrow> Part list \<Rightarrow> ('w, vertex_event) st
    \<Rightarrow> (go_error + GenerateContentResponse) \<times> ('w, vertex_event) st" where
  "SendMessage client model history parts s =
     (case vc_SendMessage client (world s) model history parts of
        (r, w') \<Rightarrow> (r, \<lparr>world = w', trace = trace s @ [SendMessage_call model history parts r]\<rparr>))"

definition callTool :: "'w vertex_Client \<Rightarrow> string \<Rightarrow> args \<Rightarrow> ('w, vertex_event) st
    \<Rightarrow> (go_error + string) \<times> ('w, vertex_event) st" where
  "callTool client name a s =
     (case vc_callTool client (world s) name a of
        (r, w') \<Rightarrow> (r, \<lparr>world = w', trace = trace s @ [callTool_call name a r]\<rparr>))"

text \<open>
  Lines 60-63 and 100-103: the usage of a response is added only when the response carries
  usage metadata. \<^verbatim>\<open>int(x)\<close> of an \<^verbatim>\<open>int32\<close> is sign extension.
\<close>

definition add_UsageMetadata :: "GenerateContentResponse \<Rightarrow> ModelUsage \<Rightarrow> ModelUsage" where
  "add_UsageMetadata gen usage =
     (case gen_UsageMetadata gen of
        None \<Rightarrow> usage
      | Some m \<Rightarrow> usage\<lparr>InputTokens := InputTokens usage + scast (PromptTokenCount m),
                         OutputTokens := OutputTokens usage + scast (CandidatesTokenCount m)\<rparr>)"

definition set_UsageMetadata :: "GenerateContentResponse \<Rightarrow> ModelUsage \<Rightarrow> ModelUsage" where
  "set_UsageMetadata gen usage =
     (case gen_UsageMetadata gen of
        None \<Rightarrow> usage
      | Some m \<Rightarrow> usage\<lparr>InputTokens := scast (PromptTokenCount m),
                         OutputTokens := scast (CandidatesTokenCount m)\<rparr>)"

text \<open>
  Lines 106-117: \<^verbatim>\<open>gen.Candidates[0].Content.Parts[0].(genai.Text)\<close>. The two index
  expressions panic on an empty slice; a first part that is not text gives \<^verbatim>\<open>nil, nil\<close>.
\<close>

fun first_part :: "GenerateContentResponse \<Rightarrow> failure + Part" where
  "first_part gen =
     (case Candidates gen of
        [] \<Rightarrow> Inl (Panic ''index out of range [0] with length 0'')
      | c # _ \<Rightarrow>
          (case gc_Parts (cand_Content c) of
             [] \<Rightarrow> Inl (Panic ''index out of range [0] with length 0'')
           | p # _ \<Rightarrow> Inr p))"

definition text_response :: "'w vertex_Client \<Rightarrow> GenerateContentResponse \<Rightarrow> ModelUsage
    \<Rightarrow> failure + CompletionResponse option" where
  "text_response client gen usage =
     (case first_part gen of
        Inl f \<Rightarrow> Inl f
      | Inr (Text txt) \<Rightarrow>
          Inr (Some \<lparr>resp_Message = Some \<lparr>msg_Role = vc_RoleAssistant client, msg_Content = txt\<rparr>,
                     resp_Messages = [], resp_Usage = usage\<rparr>)
      | Inr _ \<Rightarrow> Inr None)"

text \<open>Lines 65-104: the branch taken when the first part of the first response is a function call.\<close>

definition function_call_turn :: "'w vertex_Client \<Rightarrow> GenerativeModel \<Rightarrow> genai_Content list
    \<Rightarrow> string \<Rightarrow> args \<Rightarrow> ModelUsage \<Rightarrow> ('w, vertex_event) st
    \<Rightarrow> (failure + CompletionResponse option) \<times> ('w, vertex_event) st" where
  "function_call_turn client model history name a usage s =
     (let history1 = history @ [\<lparr>gc_Role = RoleModel, gc_Parts = [FunctionCall name a]\<rparr>] in
      case callTool client name a s of
        (Inl err, s1) \<Rightarrow> (Inl (Error err), s1)
      | (Inr resultStr, s1) \<Rightarrow>
          (case vc_json_Unmarshal client resultStr of
             Inl err \<Rightarrow> (Inl (Error err), s1)
           | Inr results \<Rightarrow>
               (let functionResults = FunctionResponse name results;
                    history2 = history1 @ [\<lparr>gc_Role = RoleUser, gc_Parts = [functionResults]\<rparr>]
                in case SendMessage client model (butlast history2) [functionResults] s1 of
                     (Inl err, s2) \<Rightarrow> (Inl (Error err), s2)
                   | (Inr gen, s2) \<Rightarrow>
                       (text_response client gen (add_UsageMetadata gen usage), s2))))"

text \<open>Lines 22-33: the model of the chat session. \<^verbatim>\<open>int32(req.MaxTokens)\<close> truncates.\<close>

definition generative_model :: "'w vertex_Client \<Rightarrow> 'w CompletionRequest \<Rightarrow> GenerativeModel" where
  "generative_model client req =
     \<lparr>gm_Name = CutPrefix (req_Model req) (vc_modelPrefix client), gm_TopP = req_TopP req,
      gm_Temperature = req_Temperature req,
      gm_MaxOutputTokens = ucast (req_MaxTokens req),
      gm_SystemInstruction = \<lparr>gc_Role = [], gc_Parts = [Text (req_SystemPrompt req)]\<rparr>,
      gm_Tools = vc_getTools client\<rparr>"

text \<open>Lines 55-63: the usage after the first round trip.\<close>

definition first_usage :: "'w vertex_Client \<Rightarrow> 'w CompletionRequest \<Rightarrow> GenerateContentResponse
    \<Rightarrow> ModelUsage" where
  "first_usage client req gen =
     set_UsageMetadata gen
       \<lparr>mu_UserId = req_UserId req, mu_Model = CutPrefix (req_Model req) (vc_modelPrefix client),
        InputTokens = 0, OutputTokens = 0\<rparr>"

text \<open>
  \<^verbatim>\<open>func (client *Client) Completion\<close> of package \<^verbatim>\<open>vertex\<close>.
  \<^verbatim>\<open>history[:len(history)-1]\<close> panics on an empty history.
\<close>

definition vertex_Completion :: "'w vertex_Client \<Rightarrow> 'w CompletionRequest
    \<Rightarrow> ('w, vertex_event) st \<Rightarrow> (failure + CompletionResponse option) \<times> ('w, vertex_event) st" where
  "vertex_Completion client req s =
     (if req_Messages req = [] then (Inl (Error ''no messages''), s)
      else
        let model = generative_model client req
        in case vc_transformToHistory client (req_Messages req) of
             Inl err \<Rightarrow> (Inl (Error err), s)
           | Inr history \<Rightarrow>
               if history = [] then (Inl (Panic ''slice bounds out of range [:-1]''), s)
               else
                 (case SendMessage client model (butlast history) (gc_Parts (last history)) s of
                    (Inl err, s1) \<Rightarrow> (Inl (Error err), s1)
                  | (Inr gen, s1) \<Rightarrow>
                      if Candidates gen = [] \<or> gc_Parts (cand_Content (hd (Candidates gen))) = []
                      then (Inr None, s1)
                      else
                        let usage = first_usage client req gen
                        in (case hd (gc_Parts (cand_Content (hd (Candidates gen)))) of
                              FunctionCall name a \<Rightarrow>
                                function_call_turn client model history name a usage s1
                            | _ \<Rightarrow> (text_response client gen usage, s1))))"

section \<open>The Anthropic adapter\<close>

subsection \<open>\<^verbatim>\<open>strings.TrimSpace\<close>\<close>

text \<open>
  The standard library's \<^verbatim>\<open>strings.TrimSpace\<close> removes every leading and every trailing
  white-space code point of a UTF-8 string. On the bytes of the string, a white-space code
  point at either end is one of the following byte sequences: the six ASCII spaces, U+0085
  and U+00A0, U+1680, U+2000 to U+200A, U+2028, U+2029, U+202F, U+205F and U+3000.
\<close>

definition space_encodings :: "string list" where
  "space_encodings =
     [[CHR 0x09], [CHR 0x0A], [CHR 0x0B], [CHR 0x0C], [CHR 0x0D], [CHR 0x20],
      [CHR 0xC2, CHR 0x85], [CHR 0xC2, CHR 0xA0],
      [CHR 0xE1, CHR 0x9A, CHR 0x80],
      [CHR 0xE2, CHR 0x80, CHR 0x80], [CHR 0xE2, CHR 0x80, CHR 0x81],
      [CHR 0xE2, CHR 0x80, CHR 0x82], [CHR 0xE2, CHR 0x80, CHR 0x83],
      [CHR 0xE2, CHR 0x80, CHR 0x84], [CHR 0xE2, CHR 0x80, CHR 0x85],
      [CHR 0xE2, CHR 0x80, CHR 0x86], [CHR 0xE2, CHR 0x80, CHR 0x87],
      [CHR 0xE2, CHR 0x80, CHR 0x88], [CHR 0xE2, CHR 0x80, CHR 0x89],
      [CHR 0xE2, CHR 0x80, CHR 0x8A],
      [CHR 0xE2, CHR 0x80, CHR 0xA8], [CHR 0xE2, CHR 0x80, CHR 0xA9],
      [CHR 0xE2, CHR 0x80, CHR 0xAF], [CHR 0xE2, CHR 0x81, CHR 0x9F],
      [CHR 0xE3, CHR 0x80, CHR 0x80]]"

function trim_left :: "string list \<Rightarrow> string \<Rightarrow> string" where
  "trim_left encs s =
     (case find (\<lambda>e. e \<noteq> [] \<and> take (length e) s = e) encs of
        None \<Rightarrow> s
      | Some e \<Rightarrow> trim_left encs (drop (length e) s))"
  by pat_completeness auto
termination
proof (relation "measure (\<lambda>(encs, s). length s)")
  show "wf (measure (\<lambda>(encs, s). length s))"
    by simp
next
  fix encs :: "string list" and s e :: string
  assume "find (\<lambda>e. e \<noteq> [] \<and> take (length e) s = e) encs = Some e"
  then have "e \<noteq> []" and "take (length e) s = e"
    by (auto simp: find_Some_iff)
  then have "s \<noteq> []"
    by auto
  with \<open>e \<noteq> []\<close> show "((encs, drop (length e) s), (encs, s)) \<in> measure (\<lambda>(encs, s). length s)"
    by simp
qed

definition TrimSpace :: "string \<Rightarrow> string" where
  "TrimSpace s = rev (trim_left (map rev space_encodings) (rev (trim_left space_encodings s)))"

subsection \<open>Wire types and the client\<close>

text \<open>
  \<^verbatim>\<open>Content\<close>, \<^verbatim>\<open>ClaudeMessage\<close>, \<^verbatim>\<open>ClaudeRequest\<close> and \<^verbatim>\<open>ClaudeResponse\<close> are declared
  outside the source files at hand; the records hold the fields \<^verbatim>\<open>Completion\<close> uses.
\<close>

record Content =
  cc_Type :: string
  cc_Text :: string
  cc_ID :: string
  cc_Name :: string
  cc_Input :: args
  cc_ToolUseId :: string
  cc_Content :: string

record ClaudeMessage =
  cm_Role :: string
  cm_Content :: "Content list"

typedecl ClaudeTool

record ClaudeRequest =
  cr_AnthropicVersion :: string
  cr_Messages :: "ClaudeMessage list"
  cr_System :: string
  cr_MaxTokens :: "64 word"
  cr_TopP :: float32
  cr_Temperature :: float32
  cr_Tools :: "ClaudeTool list"

record ClaudeUsage =
  cu_InputTokens :: "64 word"
  cu_OutputTokens :: "64 word"

record ClaudeResponse =
  cs_Model :: string
  cs_Usage :: ClaudeUsage
  cs_StopReason :: string
  cs_Content :: "Content list"

text \<open>
  The client: Bedrock's \<^verbatim>\<open>InvokeModel\<close> (model id and request body to response body), the
  JSON encoding of a request and decoding of a response, and the functions and constants
  of the package that are declared outside the source files at hand.
\<close>

record 'w anthropic_Client =
  ac_InvokeModel :: "'w \<Rightarrow> string \<Rightarrow> string \<Rightarrow> (go_error + string) \<times> 'w"
  ac_json_Marshal :: "ClaudeRequest \<Rightarrow> string"
  ac_json_Unmarshal :: "string \<Rightarrow> go_error + ClaudeResponse"
  ac_transformMessages :: "Message list \<Rightarrow> go_error + ClaudeMessage list"
  ac_transformTools :: "'w ToolDefinition list \<Rightarrow> ClaudeTool list"
  ContentTypeToolUse :: string
  ContentTypeToolResult :: string
  ChatMessageRoleAssistant :: string
  ChatMessageRoleUser :: string
  ac_RoleAssistant :: string

datatype anthropic_event =
  invokeRequest_call string ClaudeRequest "go_error + ClaudeResponse"
  | tool_call string args "go_error + string"

subsection \<open>\<^verbatim>\<open>invokeRequest\<close> and \<^verbatim>\<open>Completion\<close>\<close>

text \<open>
  \<^verbatim>\<open>invokeRequest\<close>: marshal the request (the error is dropped), call the provider, decode
  the body. One provider round trip; it is recorded with the request sent and the outcome.
\<close>

definition invokeRequest :: "'w anthropic_Client \<Rightarrow> string \<Rightarrow> ClaudeRequest
    \<Rightarrow> ('w, anthropic_event) st \<Rightarrow> (go_error + ClaudeResponse) \<times> ('w, anthropic_event) st" where
  "invokeRequest client model req s =
     (case ac_InvokeModel client (world s) model (ac_json_Marshal client req) of
        (result, w') \<Rightarrow>
          (let r = (case result of Inl err \<Rightarrow> Inl err | Inr body \<Rightarrow> ac_json_Unmarshal client body)
           in (r, \<lparr>world = w', trace = trace s @ [invokeRequest_call model req r]\<rparr>)))"

text \<open>Lines 95-98: the registry, a map from tool name to handler; a later definition wins.\<close>

definition tool_registry :: "'w ToolDefinition list \<Rightarrow> (string \<rightharpoonup> 'w llm_FunctionCall)" where
  "tool_registry ts = fold (\<lambda>tool m. m(td_Name tool \<mapsto> td_Call tool)) ts Map.empty"

definition run_handler :: "'w llm_FunctionCall \<Rightarrow> Content \<Rightarrow> ('w, anthropic_event) st
    \<Rightarrow> (go_error + string) \<times> ('w, anthropic_event) st" where
  "run_handler h message s =
     (case h (world s) (cc_Input message) of
        (r, w') \<Rightarrow>
          (r, \<lparr>world = w', trace = trace s @ [tool_call (cc_Name message) (cc_Input message) r]\<rparr>))"

text \<open>
  The message appended for a tool result (lines 141-148); fields the literal does not set
  have their zero value.
\<close>

definition tool_result_message :: "'w anthropic_Client \<Rightarrow> Content \<Rightarrow> string \<Rightarrow> ClaudeMessage" where
  "tool_result_message client message result =
     \<lparr>cm_Role = ChatMessageRoleUser client,
      cm_Content = [\<lparr>cc_Type = ContentTypeToolResult client, cc_Text = [], cc_ID = [],
                     cc_Name = [], cc_Input = [], cc_ToolUseId = cc_ID message,
                     cc_Content = result\<rparr>]\<rparr>"

text \<open>Lines 129-150: the inner loop over the content blocks of a tool-use turn.\<close>

fun call_tools :: "'w anthropic_Client \<Rightarrow> (string \<rightharpoonup> 'w llm_FunctionCall) \<Rightarrow> Content list
    \<Rightarrow> ClaudeRequest \<Rightarrow> ('w, anthropic_event) st
    \<Rightarrow> (failure + ClaudeRequest) \<times> ('w, anthropic_event) st" where
  "call_tools client tools [] request s = (Inr request, s)"
| "call_tools client tools (message # rest) request s =
     (if cc_Type message = ContentTypeToolUse client then
        (case tools (cc_Name message) of
           None \<Rightarrow> (Inl (Error (''unknown tool '' @ cc_Name message)), s)
         | Some h \<Rightarrow>
             (case run_handler h message s of
                (Inl err, s1) \<Rightarrow> (Inl (Error err), s1)
              | (Inr result, s1) \<Rightarrow>
                  call_tools client tools rest
                    (request\<lparr>cr_Messages := cr_Messages request
                        @ [tool_result_message client message result]\<rparr>) s1))
      else call_tools client tools rest request s)"

definition add_usage :: "ClaudeResponse \<Rightarrow> ModelUsage \<Rightarrow> ModelUsage" where
  "add_usage response usage =
     usage\<lparr>OutputTokens := OutputTokens usage + cu_OutputTokens (cs_Usage response),
            InputTokens := InputTokens usage + cu_InputTokens (cs_Usage response)\<rparr>"

text \<open>Lines 163-169: the answer is the trimmed text of the first content block.\<close>

definition final_response :: "'w anthropic_Client \<Rightarrow> ClaudeResponse \<Rightarrow> ModelUsage
    \<Rightarrow> failure + CompletionResponse option" where
  "final_response client response usage =
     (case cs_Content response of
        [] \<Rightarrow> Inl (Panic ''index out of range [0] with length 0'')
      | c # _ \<Rightarrow>
          Inr (Some \<lparr>resp_Message = Some \<lparr>msg_Role = ac_RoleAssistant client,
                                          msg_Content = TrimSpace (cc_Text c)\<rparr>,
                     resp_Messages = [], resp_Usage = usage\<rparr>))"

text \<open>
  Lines 122-161: the loop \<^verbatim>\<open>for response.StopReason == ContentTypeToolUse && loops < 6\<close>,
  from the head of an iteration, with the variables \<^verbatim>\<open>loops\<close>, \<^verbatim>\<open>request\<close>,
  \<^verbatim>\<open>response\<close> and \<^verbatim>\<open>usage\<close> as arguments; followed by the return of lines 163-169.
\<close>

function tool_loop :: "'w anthropic_Client \<Rightarrow> (string \<rightharpoonup> 'w llm_FunctionCall) \<Rightarrow> string
    \<Rightarrow> nat \<Rightarrow> ClaudeRequest \<Rightarrow> ClaudeResponse \<Rightarrow> ModelUsage \<Rightarrow> ('w, anthropic_event) st
    \<Rightarrow> (failure + CompletionResponse option) \<times> ('w, anthropic_event) st" where
  "tool_loop client tools model loops request response usage s =
     (if cs_StopReason response = ContentTypeToolUse client \<and> loops < 6 then
        (case call_tools client tools (cs_Content response)
                (request\<lparr>cr_Messages := cr_Messages request
                    @ [\<lparr>cm_Role = ChatMessageRoleAssistant client,
                        cm_Content = cs_Content response\<rparr>]\<rparr>) s of
           (Inl f, s1) \<Rightarrow> (Inl f, s1)
         | (Inr request', s1) \<Rightarrow>
             (case invokeRequest client model request' s1 of
                (Inl err, s2) \<Rightarrow> (Inl (Error err), s2)
              | (Inr response', s2) \<Rightarrow>
                  tool_loop client tools model (loops + 1) request' response'
                    (add_usage response' usage) s2))
      else (final_response client response usage, s))"
  by pat_completeness auto
termination
  by (relation "measure (\<lambda>(client, tools, model, loops, request, response, usage, s). 6 - loops)")
    auto

text \<open>Lines 100-108: the request of the first round trip.\<close>

definition initial_request :: "'w anthropic_Client \<Rightarrow> 'w CompletionRequest \<Rightarrow> ClaudeMessage list
    \<Rightarrow> ClaudeRequest" where
  "initial_request client req messages =
     \<lparr>cr_AnthropicVersion = ''bedrock-2023-05-31'', cr_Messages = messages,
      cr_System = req_SystemPrompt req, cr_MaxTokens = req_MaxTokens req,
      cr_TopP = req_TopP req, cr_Temperature = req_Temperature req,
      cr_Tools = ac_transformTools client (req_Tools req)\<rparr>"

text \<open>Lines 115-120: the usage after the first round trip.\<close>

definition initial_usage :: "'w CompletionRequest \<Rightarrow> ClaudeResponse \<Rightarrow> ModelUsage" where
  "initial_usage req response =
     \<lparr>mu_UserId = req_UserId req, mu_Model = cs_Model response,
      InputTokens = cu_InputTokens (cs_Usage response),
      OutputTokens = cu_OutputTokens (cs_Usage response)\<rparr>"

text \<open>\<^verbatim>\<open>func (client *Client) Completion\<close> of package \<^verbatim>\<open>anthropic\<close>.\<close>

definition Completion :: "'w anthropic_Client \<Rightarrow> 'w CompletionRequest
    \<Rightarrow> ('w, anthropic_event) st \<Rightarrow> (failure + CompletionResponse option) \<times> ('w, anthropic_event) st" where
  "Completion client req s =
     (case ac_transformMessages client (req_Messages req) of
        Inl err \<Rightarrow> (Inl (Error err), s)
      | Inr messages \<Rightarrow>
          (let tools = tool_registry (req_Tools req);
               request = initial_request client req messages
           in case invokeRequest client (req_Model req) request s of
                (Inl err, s1) \<Rightarrow> (Inl (Error err), s1)
              | (Inr response, s1) \<Rightarrow>
                  tool_loop client tools (req_Model req) 0 request response
                    (initial_usage req response) s1))"

section \<open>The chat handler\<close>

subsection \<open>Types of the collaborating packages\<close>

text \<open>
  Packages \<^verbatim>\<open>search\<close>, \<^verbatim>\<open>datastore\<close> and the generated \<^verbatim>\<open>pb\<close> messages of the chat
  service are declared outside the source files at hand; the records hold the fields
  \<^verbatim>\<open>PostMessage\<close> uses.
\<close>

type_synonym uuid = "128 word"

type_synonym time = int

text \<open>
  Modelled from the spec: the declaration of \<^verbatim>\<open>search.Result\<close> is missing from the
  source files. Its fields are those of the evidence item of the specification (id,
  documentId, text, score, position-within-document); the handler reads \<^verbatim>\<open>DocumentId\<close>
  and \<^verbatim>\<open>Position\<close> only.
\<close>

record Result =
  sr_Id :: string
  sr_DocumentId :: string
  sr_Text :: string
  sr_Position :: int
  sr_Score :: float32

record Query =
  q_UserId :: string
  q_CollectionId :: string
  q_Query :: string
  q_Limit :: "32 word"
  q_Threshold :: float32

record SearchUsage =
  su_ModelId :: string
  su_Tokens :: "64 word"

record SearchResponse =
  Results :: "Result list"
  sr_Usage :: SearchUsage

record ds_ModelUsage =
  dmu_Id :: uuid
  dmu_UserId :: string
  dmu_Timestamp :: time
  dmu_ModelId :: string
  dmu_InputTokens :: "64 word"
  dmu_OutputTokens :: "64 word"

record Thread =
  th_Id :: uuid
  th_UserId :: string
  th_CollectionId :: uuid
  th_Timestamp :: time
  th_Messages :: "Message list"

record ModelOptions =
  mo_ModelId :: string
  mo_MaxTokens :: "32 word"
  mo_TopP :: float32
  mo_Temperature :: float32

record RetrievalOptions =
  ro_Documents :: "32 word"
  ro_Threshold :: float32

record Prompt =
  p_ThreadId :: string
  p_CollectionId :: string
  p_Prompt :: string
  p_ModelOptions :: "ModelOptions option"
  p_RetrievalOptions :: "RetrievalOptions option"

record pb_Source =
  src_DocumentId :: string
  src_Name :: string

record pb_Message =
  pm_ThreadId :: string
  pm_Prompt :: string
  pm_Completion :: string
  pm_Sources :: "pb_Source list"

text \<open>The method \<^verbatim>\<open>Completion\<close> of the interface value that \<^verbatim>\<open>service.getModel\<close> returns.\<close>

type_synonym 'w llm_Completion =
  "'w \<Rightarrow> 'w CompletionRequest \<Rightarrow> (failure + CompletionResponse option) \<times> 'w"

text \<open>
  The service: its collaborators (\<^verbatim>\<open>Auth\<close>, \<^verbatim>\<open>Database\<close>, \<^verbatim>\<open>Search\<close>), the functions
  of package \<^verbatim>\<open>chat\<close> declared outside the source files at hand (\<^verbatim>\<open>getModel\<close>,
  \<^verbatim>\<open>getSources\<close>), and the library functions the handler calls. \<^verbatim>\<open>sort.Slice\<close> takes
  the comparison and the slice and returns the slice as it has rearranged it.
\<close>

record 'w Service =
  VerifyFunding :: "'w \<Rightarrow> (go_error + string) \<times> 'w"
  getModel :: "string \<Rightarrow> go_error + 'w llm_Completion"
  GetThread :: "'w \<Rightarrow> string \<Rightarrow> uuid \<Rightarrow> (go_error + Thread) \<times> 'w"
  StoreThread :: "'w \<Rightarrow> Thread \<Rightarrow> go_error option \<times> 'w"
  InsertModelUsage :: "'w \<Rightarrow> ds_ModelUsage \<Rightarrow> go_error option \<times> 'w"
  GetDocumentName :: "'w \<Rightarrow> string \<Rightarrow> uuid \<Rightarrow> (go_error + string) \<times> 'w"
  Search :: "'w \<Rightarrow> Query \<Rightarrow> (go_error + SearchResponse) \<times> 'w"
  getSources :: "Message list \<Rightarrow> pb_Source list"
  uuid_New :: "'w \<Rightarrow> uuid \<times> 'w"
  time_Now :: "'w \<Rightarrow> time \<times> 'w"
  uuid_Parse :: "string \<Rightarrow> go_error + uuid"
  uuid_String :: "uuid \<Rightarrow> string"
  sort_Slice :: "(Result \<Rightarrow> Result \<Rightarrow> bool) \<Rightarrow> Result list \<Rightarrow> Result list"
  json_Marshal :: "Result list \<Rightarrow> go_error + string"
  llm_RoleUser :: string

subsection \<open>The tool \<^verbatim>\<open>get_sources\<close>\<close>

text \<open>Lines 770-775: the comparison given to \<^verbatim>\<open>sort.Slice\<close>.\<close>

definition source_less :: "Result \<Rightarrow> Result \<Rightarrow> bool" where
  "source_less a b =
     (if sr_DocumentId a \<noteq> sr_DocumentId b then sr_DocumentId a < sr_DocumentId b
      else sr_Position a < sr_Position b)"

text \<open>
  Lines 740-788: the handler of the tool. The error of \<^verbatim>\<open>InsertModelUsage\<close> is dropped;
  the logging calls have no effect on the result.
\<close>

definition get_sources :: "'w Service \<Rightarrow> string \<Rightarrow> Prompt \<Rightarrow> RetrievalOptions
    \<Rightarrow> 'w llm_FunctionCall" where
  "get_sources service userId prompt retrievalOptions w parameters =
     (case map_of parameters ''prompt'' of
        Some (JString query) \<Rightarrow>
          (case Search service w
                  \<lparr>q_UserId = userId, q_CollectionId = p_CollectionId prompt, q_Query = query,
                   q_Limit = ro_Documents retrievalOptions,
                   q_Threshold = ro_Threshold retrievalOptions\<rparr> of
             (Inl err, w1) \<Rightarrow> (Inl err, w1)
           | (Inr response, w1) \<Rightarrow>
               (case uuid_New service w1 of
                  (uid, w2) \<Rightarrow>
                    (case time_Now service w2 of
                       (now, w3) \<Rightarrow>
                         (case InsertModelUsage service w3
                                 \<lparr>dmu_Id = uid, dmu_UserId = userId, dmu_Timestamp = now,
                                  dmu_ModelId = su_ModelId (sr_Usage response),
                                  dmu_InputTokens = su_Tokens (sr_Usage response),
                                  dmu_OutputTokens = 0\<rparr> of
                            (_, w4) \<Rightarrow>
                              (let sources = sort_Slice service source_less (Results response)
                               in (json_Marshal service sources, w4))))))
      | _ \<Rightarrow> (Inl ''prompt missing'', w))"

subsection \<open>\<^verbatim>\<open>PostMessage\<close>\<close>

datatype 'w chat_event =
  Completion_call "'w CompletionRequest" "failure + CompletionResponse option"
  | StoreThread_call Thread "go_error option"
  | InsertModelUsage_call ds_ModelUsage "go_error option"

text \<open>Lines 682-708: the thread is read from the database, or a new one is made.\<close>

definition load_thread :: "'w Service \<Rightarrow> Prompt \<Rightarrow> string \<Rightarrow> uuid \<Rightarrow> 'w
    \<Rightarrow> (go_error + Thread) \<times> 'w" where
  "load_thread service prompt userId collectionId w =
     (if p_ThreadId prompt \<noteq> [] then
        (case uuid_Parse service (p_ThreadId prompt) of
           Inl err \<Rightarrow> (Inl err, w)
         | Inr threadId \<Rightarrow> GetThread service w userId threadId)
      else
        (case uuid_New service w of
           (uid, w1) \<Rightarrow>
             (case time_Now service w1 of
                (now, w2) \<Rightarrow>
                  (Inr \<lparr>th_Id = uid, th_UserId = userId, th_CollectionId = collectionId,
                        th_Timestamp = now, th_Messages = []\<rparr>, w2))))"

text \<open>Lines 714-790: the request given to the model.\<close>

definition completion_request :: "'w Service \<Rightarrow> Prompt \<Rightarrow> ModelOptions \<Rightarrow> RetrievalOptions
    \<Rightarrow> string \<Rightarrow> Thread \<Rightarrow> 'w CompletionRequest" where
  "completion_request service prompt modelOps retrievalOptions userId thread =
     \<lparr>req_SystemPrompt =
        ''You are a scientific research assistant. Quote sources with '' @ [CHR 0x5C]
          @ ''cite{document_id}.'',
      req_Messages = th_Messages thread
        @ [\<lparr>msg_Role = llm_RoleUser service, msg_Content = p_Prompt prompt\<rparr>],
      req_Model = mo_ModelId modelOps,
      req_MaxTokens = ucast (mo_MaxTokens modelOps),
      req_TopP = mo_TopP modelOps,
      req_Temperature = mo_Temperature modelOps,
      req_UserId = userId,
      req_Tools =
        [\<lparr>td_Name = ''get_sources'',
          td_Description = ''Retrieves the sources for the prompt. The prompt should be optimized for embedding retrieval. The tool will return a list of sources in JSON format with the following fields: SourceID, Content.'',
          td_Parameters =
            \<lparr>tp_Type = ''object'',
             tp_Properties =
               [(''prompt'',
                 \<lparr>pp_Type = ''string'',
                  pp_Description = ''The topic for which to retrieve sources. The prompt should be optimized for embedding retrieval.''\<rparr>)],
             tp_Required = [''prompt'']\<rparr>,
          td_Call = get_sources service userId prompt retrievalOptions\<rparr>]\<rparr>"

text \<open>
  Lines 819-830: the loop that resolves the document names; a source whose id does not
  parse, or whose name is not found, is left as it is.
\<close>

fun name_sources :: "'w Service \<Rightarrow> string \<Rightarrow> pb_Source list \<Rightarrow> 'w \<Rightarrow> pb_Source list \<times> 'w" where
  "name_sources service userId [] w = ([], w)"
| "name_sources service userId (source # rest) w =
     (case uuid_Parse service (src_DocumentId source) of
        Inl err \<Rightarrow>
          (case name_sources service userId rest w of (rest', w') \<Rightarrow> (source # rest', w'))
      | Inr docId \<Rightarrow>
          (case GetDocumentName service w userId docId of
             (Inl err, w1) \<Rightarrow>
               (case name_sources service userId rest w1 of (rest', w') \<Rightarrow> (source # rest', w'))
           | (Inr docName, w1) \<Rightarrow>
               (case name_sources service userId rest w1 of
                  (rest', w') \<Rightarrow> (source\<lparr>src_Name := docName\<rparr> # rest', w'))))"

text \<open>
  Lines 797-837: what follows a completion that returned no error. \<^verbatim>\<open>response.Messages\<close>
  dereferences the response; the last index expression panics on an empty message list.
\<close>

definition save_response :: "'w Service \<Rightarrow> Prompt \<Rightarrow> ModelOptions \<Rightarrow> string \<Rightarrow> Thread
    \<Rightarrow> CompletionResponse option \<Rightarrow> ('w, 'w chat_event) st
    \<Rightarrow> (failure + pb_Message) \<times> ('w, 'w chat_event) st" where
  "save_response service prompt modelOps userId thread0 resp s =
     (case resp of
        None \<Rightarrow> (Inl (Panic ''invalid memory address or nil pointer dereference''), s)
      | Some response \<Rightarrow>
          (let thread = thread0\<lparr>th_Messages := resp_Messages response\<rparr> in
           case StoreThread service (world s) thread of
             (stored, w1) \<Rightarrow>
               (let s1 = \<lparr>world = w1, trace = trace s @ [StoreThread_call thread stored]\<rparr> in
                case stored of
                  Some err \<Rightarrow> (Inl (Error err), s1)
                | None \<Rightarrow>
                    (case uuid_New service w1 of
                       (uid, w2) \<Rightarrow>
                         (case time_Now service w2 of
                            (now, w3) \<Rightarrow>
                              (let usage = \<lparr>dmu_Id = uid, dmu_UserId = userId,
                                            dmu_Timestamp = now, dmu_ModelId = mo_ModelId modelOps,
                                            dmu_InputTokens = InputTokens (resp_Usage response),
                                            dmu_OutputTokens = OutputTokens (resp_Usage response)\<rparr>
                               in case InsertModelUsage service w3 usage of
                                    (inserted, w4) \<Rightarrow>
                                      (case name_sources service userId
                                              (getSources service (resp_Messages response)) w4 of
                                         (sources, w5) \<Rightarrow>
                                           (let s2 = \<lparr>world = w5, trace = trace s1
                                                       @ [InsertModelUsage_call usage inserted]\<rparr>
                                            in if th_Messages thread = []
                                               then (Inl (Panic ''index out of range [-1]''), s2)
                                               else
                                                 (Inr \<lparr>pm_ThreadId = uuid_String service (th_Id thread),
                                                       pm_Prompt = p_Prompt prompt,
                                                       pm_Completion =
                                                         msg_Content (last (th_Messages thread)),
                                                       pm_Sources = sources\<rparr>, s2)))))))))"

text \<open>Lines 792-795: the model is called; an error ends the request.\<close>

definition call_model :: "'w Service \<Rightarrow> 'w llm_Completion \<Rightarrow> Prompt \<Rightarrow> ModelOptions
    \<Rightarrow> RetrievalOptions \<Rightarrow> string \<Rightarrow> Thread \<Rightarrow> ('w, 'w chat_event) st
    \<Rightarrow> (failure + pb_Message) \<times> ('w, 'w chat_event) st" where
  "call_model service model prompt modelOps retrievalOptions userId thread s =
     (let request = completion_request service prompt modelOps retrievalOptions userId thread in
      case model (world s) request of
        (r, w1) \<Rightarrow>
          (let s1 = \<lparr>world = w1, trace = trace s @ [Completion_call request r]\<rparr> in
           case r of
             Inl f \<Rightarrow> (Inl f, s1)
           | Inr resp \<Rightarrow> save_response service prompt modelOps userId thread resp s1))"

text \<open>\<^verbatim>\<open>func (service *Service) PostMessage\<close>.\<close>

definition PostMessage :: "'w Service \<Rightarrow> Prompt \<Rightarrow> ('w, 'w chat_event) st
    \<Rightarrow> (failure + pb_Message) \<times> ('w, 'w chat_event) st" where
  "PostMessage service prompt s =
     (case VerifyFunding service (world s) of
        (Inl err, w1) \<Rightarrow> (Inl (Error err), s\<lparr>world := w1\<rparr>)
      | (Inr userId, w1) \<Rightarrow>
          (case uuid_Parse service (p_CollectionId prompt) of
             Inl err \<Rightarrow> (Inl (Error ''invalid collection id''), s\<lparr>world := w1\<rparr>)
           | Inr collectionId \<Rightarrow>
               (case p_ModelOptions prompt of
                  None \<Rightarrow> (Inl (Error ''options missing''), s\<lparr>world := w1\<rparr>)
                | Some modelOps \<Rightarrow>
                    (case p_RetrievalOptions prompt of
                       None \<Rightarrow> (Inl (Error ''retrieval options missing''), s\<lparr>world := w1\<rparr>)
                     | Some retrievalOptions \<Rightarrow>
                         (case getModel service (mo_ModelId modelOps) of
                            Inl err \<Rightarrow> (Inl (Error err), s\<lparr>world := w1\<rparr>)
                          | Inr model \<Rightarrow>
                              (case load_thread service prompt userId collectionId w1 of
                                 (Inl err, w2) \<Rightarrow> (Inl (Error err), s\<lparr>world := w2\<rparr>)
                               | (Inr thread, w2) \<Rightarrow>
                                   call_model service model prompt modelOps retrievalOptions
                                     userId thread (s\<lparr>world := w2\<rparr>)))))))"

text \<open>The loops are unfolded by hand, one iteration at a time.\<close>

declare tool_loop.simps [simp del]

declare trim_left.simps [simp del]

section \<open>Reading traces, and the assumptions on providers and tools\<close>

text \<open>A provider round trip of the Anthropic adapter is a call of \<^verbatim>\<open>invokeRequest\<close>.\<close>

fun is_invoke :: "anthropic_event \<Rightarrow> bool" where
  "is_invoke (invokeRequest_call model request r) = True"
| "is_invoke (tool_call name a r) = False"

definition provider_calls :: "anthropic_event list \<Rightarrow> nat" where
  "provider_calls tr = length (filter is_invoke tr)"











text \<open>
  The usage that one Vertex response reports: zero when it carries no usage metadata.
\<close>

definition usage_delta :: "GenerateContentResponse \<Rightarrow> 64 word \<times> 64 word" where
  "usage_delta gen =
     (case gen_UsageMetadata gen of
        None \<Rightarrow> (0, 0)
      | Some m \<Rightarrow> (scast (PromptTokenCount m), scast (CandidatesTokenCount m)))"

text \<open>
  The usage that each provider round trip of a trace reported, in the order of the trace:
  the per-turn deltas of input and of output tokens. A round trip that failed reports none.
\<close>

fun turn_usage :: "anthropic_event \<Rightarrow> ClaudeUsage list" where
  "turn_usage (invokeRequest_call model request (Inr response)) = [cs_Usage response]"
| "turn_usage (invokeRequest_call model request (Inl err)) = []"
| "turn_usage (tool_call name a r) = []"

definition input_deltas :: "anthropic_event list \<Rightarrow> 64 word list" where
  "input_deltas tr = map cu_InputTokens (concat (map turn_usage tr))"

definition output_deltas :: "anthropic_event list \<Rightarrow> 64 word list" where
  "output_deltas tr = map cu_OutputTokens (concat (map turn_usage tr))"

fun send_usage :: "vertex_event \<Rightarrow> (64 word \<times> 64 word) list" where
  "send_usage (SendMessage_call model history parts (Inr gen)) = [usage_delta gen]"
| "send_usage (SendMessage_call model history parts (Inl err)) = []"
| "send_usage (callTool_call name a r) = []"

definition vertex_input_deltas :: "vertex_event list \<Rightarrow> 64 word list" where
  "vertex_input_deltas tr = map fst (concat (map send_usage tr))"

definition vertex_output_deltas :: "vertex_event list \<Rightarrow> 64 word list" where
  "vertex_output_deltas tr = map snd (concat (map send_usage tr))"

text \<open>
  Deltas that are token counts: none is negative, and their sum fits a Go \<^verbatim>\<open>int\<close>.
\<close>

definition in_range :: "64 word list \<Rightarrow> bool" where
  "in_range ds = ((\<forall>d \<in> set ds. 0 \<le> sint d) \<and> (\<Sum>d\<leftarrow>ds. sint d) < 2 ^ 63)"

text \<open>
  The running total after each turn, computed as the code computes it and read as the
  signed number it is, never goes down from one turn to the next.
\<close>

definition non_decreasing :: "64 word list \<Rightarrow> bool" where
  "non_decreasing ds =
     (\<forall>k < length ds. sint (sum_list (take k ds)) \<le> sint (sum_list (take (Suc k) ds)))"

text \<open>The calls of \<^verbatim>\<open>StoreThread\<close> in a trace of the chat handler.\<close>

fun is_store :: "'w chat_event \<Rightarrow> bool" where
  "is_store (StoreThread_call thread stored) = True"
| "is_store (Completion_call request r) = False"
| "is_store (InsertModelUsage_call usage inserted) = False"

text \<open>
  An adapter as the value that \<^verbatim>\<open>getModel\<close> returns: the handler sees the adapter's result
  and its effect on the world.
\<close>

definition as_model :: "('w CompletionRequest \<Rightarrow> ('w, 'e) st
      \<Rightarrow> (failure + CompletionResponse option) \<times> ('w, 'e) st)
    \<Rightarrow> 'w llm_Completion" where
  "as_model completion w req =
     (case completion req \<lparr>world = w, trace = []\<rparr> of (r, s') \<Rightarrow> (r, world s'))"

text \<open>
  What the documentation of \<^verbatim>\<open>sort.Slice\<close> promises for the comparison of the handler: the
  slice is rearranged (nothing is lost or added) so that no element is less than one before
  it. The documentation adds that the sort is not guaranteed to be stable.
\<close>

definition sort_Slice_contract :: "((Result \<Rightarrow> Result \<Rightarrow> bool) \<Rightarrow> Result list \<Rightarrow> Result list)
    \<Rightarrow> bool" where
  "sort_Slice_contract srt =
     (\<forall>xs. mset (srt source_less xs) = mset xs \<and>
           sorted_wrt (\<lambda>a b. \<not> source_less b a) (srt source_less xs))"

text \<open>Grouped by document id ascending, and by position ascending within a document.\<close>

definition by_document_then_position :: "Result list \<Rightarrow> bool" where
  "by_document_then_position xs =
     sorted_wrt (\<lambda>a b. sr_DocumentId a < sr_DocumentId b \<or>
                       (sr_DocumentId a = sr_DocumentId b \<and> sr_Position a \<le> sr_Position b)) xs"

text \<open>
  A sort within that promise that is not stable: insertion sort that puts an element after
  the elements it ties with, inserting from the right.
\<close>

fun insert_after :: "('a \<Rightarrow> 'a \<Rightarrow> bool) \<Rightarrow> 'a \<Rightarrow> 'a list \<Rightarrow> 'a list" where
  "insert_after lt x [] = [x]"
| "insert_after lt x (y # ys) =
     (if lt x y then x # y # ys else y # insert_after lt x ys)"

definition unstable_sort :: "('a \<Rightarrow> 'a \<Rightarrow> bool) \<Rightarrow> 'a list \<Rightarrow> 'a list" where
  "unstable_sort lt xs = foldr (insert_after lt) xs []"

section \<open>Example environments\<close>

text \<open>
  Concrete clients and requests, on which the theorems below are instantiated. The world
  of a scripted provider is the number of calls it has answered.
\<close>

definition demo_request :: "Message list \<Rightarrow> 'w ToolDefinition list \<Rightarrow> 'w CompletionRequest" where
  "demo_request ms tools =
     \<lparr>req_SystemPrompt = ''be brief'', req_Messages = ms, req_Model = ''m1'',
      req_MaxTokens = 100, req_TopP = 0, req_Temperature = 0, req_UserId = ''u1'',
      req_Tools = tools\<rparr>"

definition hello :: "Message list" where
  "hello = [\<lparr>msg_Role = ''user'', msg_Content = ''hello''\<rparr>]"

definition demo_vertex :: "(nat \<Rightarrow> go_error + GenerateContentResponse) \<Rightarrow> (go_error + string)
    \<Rightarrow> nat vertex_Client" where
  "demo_vertex script tool_result =
     \<lparr>vc_SendMessage = (\<lambda>w model history parts. (script w, Suc w)),
      vc_callTool = (\<lambda>w name a. (tool_result, w)),
      vc_transformToHistory =
        (\<lambda>ms. Inr (map (\<lambda>m. \<lparr>gc_Role = msg_Role m, gc_Parts = [Text (msg_Content m)]\<rparr>) ms)),
      vc_getTools = [],
      vc_modelPrefix = ''vertex.'',
      vc_json_Unmarshal = (\<lambda>body. Inr [(''sources'', JString body)]),
      vc_RoleAssistant = ''assistant''\<rparr>"

definition gen_parts :: "Part list \<Rightarrow> GenerateContentResponse" where
  "gen_parts ps =
     \<lparr>Candidates = [\<lparr>cand_Content = \<lparr>gc_Role = ''model'', gc_Parts = ps\<rparr>\<rparr>],
      gen_UsageMetadata = Some \<lparr>PromptTokenCount = 3, CandidatesTokenCount = 5\<rparr>\<rparr>"

definition text_block :: "string \<Rightarrow> Content" where
  "text_block txt =
     \<lparr>cc_Type = ''text'', cc_Text = txt, cc_ID = [], cc_Name = [], cc_Input = [],
      cc_ToolUseId = [], cc_Content = []\<rparr>"

definition tool_use_block :: "string \<Rightarrow> string \<Rightarrow> args \<Rightarrow> Content" where
  "tool_use_block i name a =
     \<lparr>cc_Type = ''tool_use'', cc_Text = [], cc_ID = i, cc_Name = name, cc_Input = a,
      cc_ToolUseId = [], cc_Content = []\<rparr>"

definition claude_response :: "string \<Rightarrow> Content list \<Rightarrow> ClaudeResponse" where
  "claude_response stop blocks =
     \<lparr>cs_Model = ''claude'', cs_Usage = \<lparr>cu_InputTokens = 10, cu_OutputTokens = 20\<rparr>,
      cs_StopReason = stop, cs_Content = blocks\<rparr>"

text \<open>The body that the scripted provider returns is the number of the call, in unary.\<close>

definition demo_anthropic :: "(nat \<Rightarrow> go_error + ClaudeResponse) \<Rightarrow> nat anthropic_Client" where
  "demo_anthropic script =
     \<lparr>ac_InvokeModel = (\<lambda>w model body. (Inr (replicate w (CHR ''.'')), Suc w)),
      ac_json_Marshal = (\<lambda>request. []),
      ac_json_Unmarshal = (\<lambda>body. script (length body)),
      ac_transformMessages =
        (\<lambda>ms. Inr (map (\<lambda>m. \<lparr>cm_Role = msg_Role m, cm_Content = [text_block (msg_Content m)]\<rparr>) ms)),
      ac_transformTools = (\<lambda>ts. []),
      ContentTypeToolUse = ''tool_use'',
      ContentTypeToolResult = ''tool_result'',
      ChatMessageRoleAssistant = ''assistant'',
      ChatMessageRoleUser = ''user'',
      ac_RoleAssistant = ''assistant''\<rparr>"

definition demo_tool :: "string \<Rightarrow> (go_error + string) \<Rightarrow> nat ToolDefinition" where
  "demo_tool name result =
     \<lparr>td_Name = name, td_Description = [],
      td_Parameters = \<lparr>tp_Type = ''object'', tp_Properties = [], tp_Required = []\<rparr>,
      td_Call = (\<lambda>w a. (result, w))\<rparr>"

text \<open>A provider that asks for the tool \<^verbatim>\<open>get_sources\<close> on every round trip.\<close>

definition looping_provider :: "nat anthropic_Client" where
  "looping_provider =
     demo_anthropic (\<lambda>n. Inr (claude_response ''tool_use''
       [text_block ''Let me look.'', tool_use_block ''t1'' ''get_sources'' []]))"

definition looping_request :: "nat CompletionRequest" where
  "looping_request = demo_request hello [demo_tool ''get_sources'' (Inr ''[]'')]"

definition looping_vertex :: "nat vertex_Client" where
  "looping_vertex =
     demo_vertex (\<lambda>n. Inr (gen_parts [FunctionCall ''get_sources'' []])) (Inr ''[]'')"

definition start :: "(nat, 'e) st" where
  "start = \<lparr>world = 0, trace = []\<rparr>"

text \<open>A provider that answers with one text, padded with spaces.\<close>

definition plain_provider :: "nat anthropic_Client" where
  "plain_provider = demo_anthropic (\<lambda>n. Inr (claude_response ''end_turn'' [text_block '' hi '']))"

definition plain_vertex :: "nat vertex_Client" where
  "plain_vertex = demo_vertex (\<lambda>n. Inr (gen_parts [Text '' hi ''])) (Inr ''[]'')"

definition plain_request :: "nat CompletionRequest" where
  "plain_request = demo_request hello []"

text \<open>Requests and providers around a failing handler and an unregistered tool.\<close>

definition failing_request :: "nat CompletionRequest" where
  "failing_request = demo_request hello [demo_tool ''get_sources'' (Inl ''boom'')]"

definition two_tools :: ClaudeResponse where
  "two_tools = claude_response ''tool_use''
     [tool_use_block ''t1'' ''get_sources'' [], tool_use_block ''t2'' ''nope'' []]"

definition two_tools_provider :: "nat anthropic_Client" where
  "two_tools_provider = demo_anthropic (\<lambda>n. Inr two_tools)"

definition truncated_provider :: "nat anthropic_Client" where
  "truncated_provider =
     demo_anthropic (\<lambda>n. Inr (claude_response ''max_tokens''
       [text_block ''partial'', tool_use_block ''t1'' ''nope'' []]))"

definition late_unknown_provider :: "nat anthropic_Client" where
  "late_unknown_provider =
     demo_anthropic (\<lambda>n. Inr (claude_response ''tool_use''
       [text_block ''Let me look.'',
        tool_use_block ''t1'' (if n < 6 then ''get_sources'' else ''nope'') []]))"

text \<open>A Vertex provider whose first turn holds two function calls.\<close>

definition two_calls_vertex :: "nat vertex_Client" where
  "two_calls_vertex =
     demo_vertex
       (\<lambda>n. if n = 0
             then Inr (gen_parts [FunctionCall ''get_sources'' [(''prompt'', JString ''a'')],
                                  FunctionCall ''get_sources'' [(''prompt'', JString ''b'')]])
             else Inr (gen_parts [Text ''done'']))
       (Inr ''[]'')"

definition failing_vertex :: "nat vertex_Client" where
  "failing_vertex =
     demo_vertex (\<lambda>n. Inr (gen_parts [FunctionCall ''get_sources'' []])) (Inl ''boom'')"

text \<open>A turn with two calls of the registered tool.\<close>

definition double_call :: ClaudeResponse where
  "double_call = claude_response ''tool_use''
     [tool_use_block ''t1'' ''get_sources'' [(''prompt'', JString ''a'')],
      tool_use_block ''t2'' ''get_sources'' [(''prompt'', JString ''b'')]]"

text \<open>Providers whose reported usage is negative, or does not fit.\<close>

definition with_usage :: "64 word \<Rightarrow> 64 word \<Rightarrow> ClaudeResponse \<Rightarrow> ClaudeResponse" where
  "with_usage i out response =
     response\<lparr>cs_Usage := \<lparr>cu_InputTokens = i, cu_OutputTokens = out\<rparr>\<rparr>"

definition shrinking_provider :: "nat anthropic_Client" where
  "shrinking_provider =
     demo_anthropic
       (\<lambda>n. if n = 0
             then Inr (with_usage 10 20
                    (claude_response ''tool_use'' [tool_use_block ''t1'' ''get_sources'' []]))
             else Inr (with_usage (- 5) 0 (claude_response ''end_turn'' [text_block ''done''])))"

definition huge_provider :: "nat anthropic_Client" where
  "huge_provider =
     demo_anthropic
       (\<lambda>n. if n = 0
             then Inr (with_usage (2 ^ 62) 20
                    (claude_response ''tool_use'' [tool_use_block ''t1'' ''get_sources'' []]))
             else Inr (with_usage (2 ^ 62) 0 (claude_response ''end_turn'' [text_block ''done''])))"

text \<open>A Vertex provider whose second turn carries no usage metadata.\<close>

definition silent_vertex :: "nat vertex_Client" where
  "silent_vertex =
     demo_vertex
       (\<lambda>n. if n = 0 then Inr (gen_parts [FunctionCall ''get_sources'' []])
             else Inr ((gen_parts [Text ''done''])\<lparr>gen_UsageMetadata := None\<rparr>))
       (Inr ''[]'')"

text \<open>A provider that asks for the tool once and then answers.\<close>

definition two_turn_provider :: "nat anthropic_Client" where
  "two_turn_provider =
     demo_anthropic
       (\<lambda>n. if n = 0
             then Inr (claude_response ''tool_use'' [tool_use_block ''t1'' ''get_sources'' []])
             else Inr (claude_response ''end_turn'' [text_block ''done'']))"

text \<open>
  A service around a given model; every search finds \<open>found\<close>, and \<^verbatim>\<open>sort.Slice\<close> and
  \<^verbatim>\<open>json.Marshal\<close> are given.
\<close>

definition demo_service :: "nat llm_Completion \<Rightarrow> Result list
    \<Rightarrow> ((Result \<Rightarrow> Result \<Rightarrow> bool) \<Rightarrow> Result list \<Rightarrow> Result list) \<Rightarrow> nat Service" where
  "demo_service model found srt =
     \<lparr>VerifyFunding = (\<lambda>w. (Inr ''u1'', w)),
      getModel = (\<lambda>name. Inr model),
      GetThread = (\<lambda>w userId threadId. (Inl ''no such thread'', w)),
      StoreThread = (\<lambda>w thread. (None, w)),
      InsertModelUsage = (\<lambda>w usage. (None, w)),
      GetDocumentName = (\<lambda>w userId docId. (Inr ''a document'', w)),
      Search = (\<lambda>w query. (Inr \<lparr>Results = found,
                                   sr_Usage = \<lparr>su_ModelId = ''embed'', su_Tokens = 4\<rparr>\<rparr>, w)),
      getSources = (\<lambda>ms. []),
      uuid_New = (\<lambda>w. (7, w)),
      time_Now = (\<lambda>w. (0, w)),
      uuid_Parse = (\<lambda>text. Inr 1),
      uuid_String = (\<lambda>u. ''thread-7''),
      sort_Slice = srt,
      json_Marshal = (\<lambda>sources. Inr (concat (map (\<lambda>r. sr_Id r @ '';'') sources))),
      llm_RoleUser = ''user''\<rparr>"

definition demo_prompt :: Prompt where
  "demo_prompt =
     \<lparr>p_ThreadId = [], p_CollectionId = ''c1'', p_Prompt = ''hello'',
      p_ModelOptions = Some \<lparr>mo_ModelId = ''m1'', mo_MaxTokens = 100, mo_TopP = 0,
                              mo_Temperature = 0\<rparr>,
      p_RetrievalOptions = Some \<lparr>ro_Documents = 3, ro_Threshold = 0\<rparr>\<rparr>"

text \<open>A model that fails, and one that answers with the thread's two messages.\<close>

definition failing_model :: "nat llm_Completion" where
  "failing_model w req = (Inl (Error ''provider down''), w)"

definition answering_model :: "nat llm_Completion" where
  "answering_model w req =
     (Inr (Some \<lparr>resp_Message = None,
                 resp_Messages = req_Messages req
                   @ [\<lparr>msg_Role = ''assistant'', msg_Content = ''hi''\<rparr>],
                 resp_Usage = \<lparr>mu_UserId = ''u1'', mu_Model = ''m1'', InputTokens = 1,
                               OutputTokens = 2\<rparr>\<rparr>), w)"

text \<open>Vertex providers with an empty turn, first or second.\<close>

definition empty_vertex :: "nat vertex_Client" where
  "empty_vertex = demo_vertex (\<lambda>n. Inr (gen_parts [])) (Inr ''[]'')"

definition no_candidates_vertex :: "nat vertex_Client" where
  "no_candidates_vertex =
     demo_vertex (\<lambda>n. Inr \<lparr>Candidates = [], gen_UsageMetadata = None\<rparr>) (Inr ''[]'')"

definition empty_second_vertex :: "nat vertex_Client" where
  "empty_second_vertex =
     demo_vertex
       (\<lambda>n. if n = 0 then Inr (gen_parts [FunctionCall ''get_sources'' []])
             else Inr (gen_parts []))
       (Inr ''[]'')"

definition empty_provider :: "nat anthropic_Client" where
  "empty_provider = demo_anthropic (\<lambda>n. Inr (claude_response ''end_turn'' []))"

text \<open>Evidence items.\<close>

definition evidence :: "string \<Rightarrow> string \<Rightarrow> int \<Rightarrow> Result" where
  "evidence i doc pos =
     \<lparr>sr_Id = i, sr_DocumentId = doc, sr_Text = [], sr_Position = pos, sr_Score = 0\<rparr>"

text \<open>
  Thirteen results of one document; the first two have the same position.
\<close>

definition tied_results :: "Result list" where
  "tied_results =
     [evidence ''c1'' ''docA'' 9, evidence ''c2'' ''docA'' 9, evidence ''c3'' ''docA'' 1,
      evidence ''c4'' ''docA'' 2, evidence ''c5'' ''docA'' 3, evidence ''c6'' ''docA'' 4,
      evidence ''c7'' ''docA'' 5, evidence ''c8'' ''docA'' 6, evidence ''c9'' ''docA'' 7,
      evidence ''c10'' ''docA'' 8, evidence ''c11'' ''docA'' 10, evidence ''c12'' ''docA'' 11,
      evidence ''c13'' ''docA'' 12]"

text \<open>A service whose \<^verbatim>\<open>sort.Slice\<close> is the unstable sort.\<close>

definition sorting_service :: "Result list \<Rightarrow> nat Service" where
  "sorting_service found = demo_service failing_model found unstable_sort"

definition double_call_provider :: "nat anthropic_Client" where
  "double_call_provider =
     demo_anthropic
       (\<lambda>n. if n = 0 then Inr double_call
             else Inr (claude_response ''end_turn'' [text_block ''done'']))"

section \<open>Unfolding the definitions\<close>

lemmas demo_defs = demo_anthropic_def demo_vertex_def demo_request_def hello_def
  claude_response_def text_block_def tool_use_block_def demo_tool_def gen_parts_def
  looping_provider_def looping_request_def looping_vertex_def start_def
  plain_provider_def plain_vertex_def plain_request_def failing_request_def two_tools_def
  two_tools_provider_def truncated_provider_def late_unknown_provider_def two_calls_vertex_def
  failing_vertex_def double_call_def with_usage_def shrinking_provider_def huge_provider_def
  silent_vertex_def two_turn_provider_def demo_service_def demo_prompt_def failing_model_def
  answering_model_def empty_vertex_def no_candidates_vertex_def empty_second_vertex_def
  empty_provider_def evidence_def double_call_provider_def

lemmas anthropic_defs = Completion_def invokeRequest_def tool_registry_def initial_request_def
  initial_usage_def run_handler_def tool_result_message_def add_usage_def final_response_def
  TrimSpace_def space_encodings_def Let_def

lemmas vertex_defs = vertex_Completion_def SendMessage_def callTool_def generative_model_def
  first_usage_def set_UsageMetadata_def add_UsageMetadata_def function_call_turn_def
  text_response_def CutPrefix_def RoleUser_def RoleModel_def Let_def

lemmas chat_defs = PostMessage_def call_model_def save_response_def load_thread_def
  as_model_def Let_def

lemma tool_loop_exit:
  "\<not> (cs_StopReason response = ContentTypeToolUse client \<and> loops < 6) \<Longrightarrow>
   tool_loop client tools model loops request response usage s
     = (final_response client response usage, s)"
  by (subst tool_loop.simps) auto

lemma tool_loop_step:
  "cs_StopReason response = ContentTypeToolUse client \<Longrightarrow> loops < 6 \<Longrightarrow>
   tool_loop client tools model loops request response usage s =
     (case call_tools client tools (cs_Content response)
                (request\<lparr>cr_Messages := cr_Messages request
                    @ [\<lparr>cm_Role = ChatMessageRoleAssistant client,
                        cm_Content = cs_Content response\<rparr>]\<rparr>) s of
           (Inl f, s1) \<Rightarrow> (Inl f, s1)
         | (Inr request', s1) \<Rightarrow>
             (case invokeRequest client model request' s1 of
                (Inl err, s2) \<Rightarrow> (Inl (Error err), s2)
              | (Inr response', s2) \<Rightarrow>
                  tool_loop client tools model (loops + 1) request' response'
                    (add_usage response' usage) s2))"
  by (subst tool_loop.simps) auto

lemma provider_calls_append [simp]:
  "provider_calls (xs @ ys) = provider_calls xs + provider_calls ys"
  by (simp add: provider_calls_def)

lemma run_handler_trace:
  "run_handler h m s = (r, s') \<Longrightarrow> trace s' = trace s @ [tool_call (cc_Name m) (cc_Input m) r]"
  by (auto simp: run_handler_def split: prod.splits)

lemma invokeRequest_trace:
  "invokeRequest client model request s = (r, s') \<Longrightarrow>
   trace s' = trace s @ [invokeRequest_call model request r]"
  by (auto simp: invokeRequest_def Let_def split: prod.splits)


section \<open>A provider that never stops asking for tools\<close>













section \<open>A failing tool handler\<close>

lemma call_tools_failure:
  "call_tools client tools blocks request s = (res, s') \<Longrightarrow>
   \<exists>evs. trace s' = trace s @ evs \<and>
     (\<forall>name a err. tool_call name a (Inl err) \<in> set evs \<longrightarrow>
        res = Inl (Error err) \<and> last evs = tool_call name a (Inl err))"
proof (induction blocks arbitrary: request s)
  case Nil
  then show ?case by simp
next
  case (Cons m blocks)
  show ?case
  proof (cases "cc_Type m = ContentTypeToolUse client")
    case False
    with Cons show ?thesis by simp
  next
    case use: True
    show ?thesis
    proof (cases "tools (cc_Name m)")
      case None
      with use Cons.prems show ?thesis by simp
    next
      case (Some h)
      obtain r s1 where rh: "run_handler h m s = (r, s1)"
        by (cases "run_handler h m s")
      note tr = run_handler_trace [OF rh]
      show ?thesis
      proof (cases r)
        case (Inl err)
        with use Some rh Cons.prems tr show ?thesis by auto
      next
        case (Inr result)
        with use Some rh Cons.prems have
          "call_tools client tools blocks (request\<lparr>cr_Messages := cr_Messages request
              @ [tool_result_message client m result]\<rparr>) s1 = (res, s')"
          by simp
        from Cons.IH [OF this] obtain evs where
          "trace s' = trace s1 @ evs"
          "\<forall>name a err. tool_call name a (Inl err) \<in> set evs \<longrightarrow>
             res = Inl (Error err) \<and> last evs = tool_call name a (Inl err)"
          by blast
        with tr Inr show ?thesis by auto
      qed
    qed
  qed
qed

lemma tool_loop_failure:
  "tool_loop client tools model loops request response usage s = (res, s') \<Longrightarrow>
   \<exists>evs. trace s' = trace s @ evs \<and>
     (\<forall>name a err. tool_call name a (Inl err) \<in> set evs \<longrightarrow>
        res = Inl (Error err) \<and> last evs = tool_call name a (Inl err))"
proof (induction "6 - loops" arbitrary: loops request response usage s)
  case 0
  then have "\<not> (cs_StopReason response = ContentTypeToolUse client \<and> loops < 6)" by simp
  from tool_loop_exit [OF this] 0 show ?case by simp
next
  case (Suc n)
  show ?case
  proof (cases "cs_StopReason response = ContentTypeToolUse client \<and> loops < 6")
    case False
    from tool_loop_exit [OF this] Suc.prems show ?thesis by simp
  next
    case True
    let ?request1 = "request\<lparr>cr_Messages := cr_Messages request
        @ [\<lparr>cm_Role = ChatMessageRoleAssistant client, cm_Content = cs_Content response\<rparr>]\<rparr>"
    obtain res1 s1 where ct: "call_tools client tools (cs_Content response) ?request1 s = (res1, s1)"
      by (cases "call_tools client tools (cs_Content response) ?request1 s")
    from call_tools_failure [OF ct] obtain evs1 where
      e1: "trace s1 = trace s @ evs1"
        "\<forall>name a err. tool_call name a (Inl err) \<in> set evs1 \<longrightarrow>
           res1 = Inl (Error err) \<and> last evs1 = tool_call name a (Inl err)"
      by blast
    show ?thesis
    proof (cases res1)
      case (Inl f)
      with True ct Suc.prems e1 show ?thesis
        by (auto simp: tool_loop_step)
    next
      case (Inr request')
      obtain r2 s2 where inv: "invokeRequest client model request' s1 = (r2, s2)"
        by (cases "invokeRequest client model request' s1")
      note tr2 = invokeRequest_trace [OF inv]
      show ?thesis
      proof (cases r2)
        case (Inl err)
        with True ct Inr inv Suc.prems e1 tr2 show ?thesis
          by (auto simp: tool_loop_step)
      next
        case r2: (Inr response')
        with True ct Inr inv Suc.prems have rec:
          "tool_loop client tools model (loops + 1) request' response'
             (add_usage response' usage) s2 = (res, s')"
          by (simp add: tool_loop_step)
        have "n = 6 - (loops + 1)" using Suc.hyps(2) by simp
        from Suc.hyps(1) [OF this rec] obtain evs2 where
          "trace s' = trace s2 @ evs2"
          "\<forall>name a err. tool_call name a (Inl err) \<in> set evs2 \<longrightarrow>
             res = Inl (Error err) \<and> last evs2 = tool_call name a (Inl err)"
          by blast
        with e1 tr2 Inr show ?thesis by auto
      qed
    qed
  qed
qed

lemma Completion_failure:
  assumes c: "Completion client req s = (res, s')"
  shows "\<exists>evs. trace s' = trace s @ evs \<and>
     (\<forall>name a err. tool_call name a (Inl err) \<in> set evs \<longrightarrow>
        res = Inl (Error err) \<and> last evs = tool_call name a (Inl err))"
proof (cases "ac_transformMessages client (req_Messages req)")
  case (Inl err)
  with c show ?thesis by (simp add: Completion_def)
next
  case (Inr messages)
  obtain r1 s1 where inv:
    "invokeRequest client (req_Model req) (initial_request client req messages) s = (r1, s1)"
    by (cases "invokeRequest client (req_Model req) (initial_request client req messages) s")
  note tr = invokeRequest_trace [OF inv]
  show ?thesis
  proof (cases r1)
    case (Inl err)
    with c Inr inv tr show ?thesis by (auto simp: Completion_def)
  next
    case r1: (Inr response)
    with c Inr inv have
      "tool_loop client (tool_registry (req_Tools req)) (req_Model req) 0
         (initial_request client req messages) response (initial_usage req response) s1 = (res, s')"
      by (simp add: Completion_def)
    from tool_loop_failure [OF this] tr show ?thesis by auto
  qed
qed

lemma vertex_Completion_failure:
  "vertex_Completion client req s = (res, s') \<Longrightarrow>
   \<exists>evs. trace s' = trace s @ evs \<and>
     (\<forall>name a err. callTool_call name a (Inl err) \<in> set evs \<longrightarrow>
        res = Inl (Error err) \<and> last evs = callTool_call name a (Inl err))"
  by (auto simp: vertex_Completion_def function_call_turn_def SendMessage_def callTool_def Let_def
      split: if_splits sum.splits prod.splits Part.splits)

text \<open>
  C5. In either adapter, whenever a tool handler that was called returned an error, the
  completion returns that error and no response, and the failed call is the last thing
  the completion did: no further tool is run and the provider is not called again. The
  code has no error kinds; the error returned is the handler's own.
\<close>

theorem handler_error_aborts:
  "(Completion ac req s = (res, s') \<longrightarrow>
      (\<exists>evs. trace s' = trace s @ evs \<and>
         (\<forall>name a err. tool_call name a (Inl err) \<in> set evs \<longrightarrow>
            res = Inl (Error err) \<and> last evs = tool_call name a (Inl err)))) \<and>
   (vertex_Completion vc vreq vs = (vres, vs') \<longrightarrow>
      (\<exists>evs. trace vs' = trace vs @ evs \<and>
         (\<forall>name a err. callTool_call name a (Inl err) \<in> set evs \<longrightarrow>
            vres = Inl (Error err) \<and> last evs = callTool_call name a (Inl err))))"
  using Completion_failure [of ac req s res s'] vertex_Completion_failure [of vc vreq vs vres vs']
  by blast

theorem handler_error_aborts_witness:
  "tool_call ''get_sources'' [] (Inl ''boom'')
     \<in> set (trace (snd (Completion looping_provider failing_request start))) \<and>
   fst (Completion looping_provider failing_request start) = Inl (Error ''boom'') \<and>
   last (trace (snd (Completion looping_provider failing_request start)))
     = tool_call ''get_sources'' [] (Inl ''boom'') \<and>
   callTool_call ''get_sources'' [] (Inl ''boom'')
     \<in> set (trace (snd (vertex_Completion failing_vertex plain_request start))) \<and>
   fst (vertex_Completion failing_vertex plain_request start) = Inl (Error ''boom'') \<and>
   last (trace (snd (vertex_Completion failing_vertex plain_request start)))
     = callTool_call ''get_sources'' [] (Inl ''boom'')"
proof -
  let ?C = "Completion looping_provider failing_request start"
  let ?V = "vertex_Completion failing_vertex plain_request start"
  have a: "tool_call ''get_sources'' [] (Inl ''boom'') \<in> set (trace (snd ?C))"
    by (simp add: demo_defs anthropic_defs tool_loop.simps)
  have b: "callTool_call ''get_sources'' [] (Inl ''boom'') \<in> set (trace (snd ?V))"
    by (simp add: demo_defs vertex_defs)
  from handler_error_aborts [where ac = looping_provider and req = failing_request
      and s = start and res = "fst ?C" and s' = "snd ?C" and vc = failing_vertex
      and vreq = plain_request and vs = start and vres = "fst ?V" and vs' = "snd ?V"]
  obtain evs vevs where
    "trace (snd ?C) = trace (start :: (nat, anthropic_event) st) @ evs"
    "\<forall>name a err. tool_call name a (Inl err) \<in> set evs \<longrightarrow>
       fst ?C = Inl (Error err) \<and> last evs = tool_call name a (Inl err)"
    "trace (snd ?V) = trace (start :: (nat, vertex_event) st) @ vevs"
    "\<forall>name a err. callTool_call name a (Inl err) \<in> set vevs \<longrightarrow>
       fst ?V = Inl (Error err) \<and> last vevs = callTool_call name a (Inl err)"
    by auto
  with a b show ?thesis
    by (simp add: start_def)
qed

section \<open>The turns of a completion\<close>





section \<open>A tool that is not registered\<close>






section \<open>Serving the tool calls of a turn\<close>








section \<open>Usage\<close>

lemma sint_add_in_range:
  fixes a b :: "64 word"
  assumes "0 \<le> sint a" and "0 \<le> sint b" and "sint a + sint b < 2 ^ 63"
  shows "sint (a + b) = sint a + sint b"
proof -
  have "sint (a + b) = signed_take_bit (LENGTH(64) - 1) (sint a + sint b)"
    by (rule sint_word_ariths)
  also have "\<dots> = sint a + sint b"
    using assms by (intro signed_take_bit_int_eq_self) simp_all
  finally show ?thesis .
qed

lemma sum_list_sint_nonneg:
  fixes ds :: "64 word list"
  shows "\<forall>d \<in> set ds. 0 \<le> sint d \<Longrightarrow> 0 \<le> (\<Sum>d\<leftarrow>ds. sint d)"
  by (induction ds) auto

lemma sint_sum_list:
  fixes ds :: "64 word list"
  assumes "in_range ds"
  shows "sint (sum_list ds) = (\<Sum>d\<leftarrow>ds. sint d)"
  using assms
proof (induction ds)
  case Nil
  then show ?case by simp
next
  case (Cons d ds)
  from Cons.prems have nn: "0 \<le> sint d" "\<forall>x \<in> set ds. 0 \<le> sint x"
    and lt: "sint d + (\<Sum>x\<leftarrow>ds. sint x) < 2 ^ 63"
    by (simp_all add: in_range_def)
  from nn(2) have rest: "0 \<le> (\<Sum>x\<leftarrow>ds. sint x)"
    by (rule sum_list_sint_nonneg)
  with nn lt have "in_range ds"
    by (simp add: in_range_def)
  then have ih: "sint (sum_list ds) = (\<Sum>x\<leftarrow>ds. sint x)"
    by (rule Cons.IH)
  with nn(1) rest lt have "sint (d + sum_list ds) = sint d + sint (sum_list ds)"
    by (intro sint_add_in_range) simp_all
  with ih show ?case by simp
qed

lemma in_range_take:
  fixes ds :: "64 word list"
  assumes "in_range ds"
  shows "in_range (take k ds)"
proof -
  from assms have nn: "\<forall>d \<in> set ds. 0 \<le> sint d" and lt: "(\<Sum>d\<leftarrow>ds. sint d) < 2 ^ 63"
    by (simp_all add: in_range_def)
  have "(\<Sum>d\<leftarrow>ds. sint d) = (\<Sum>d\<leftarrow>take k ds. sint d) + (\<Sum>d\<leftarrow>drop k ds. sint d)"
    by (metis append_take_drop_id map_append sum_list_append)
  moreover have "0 \<le> (\<Sum>d\<leftarrow>drop k ds. sint d)"
    using nn by (intro sum_list_sint_nonneg) (auto dest: in_set_dropD)
  ultimately have "(\<Sum>d\<leftarrow>take k ds. sint d) < 2 ^ 63"
    using lt by linarith
  with nn show ?thesis
    by (auto simp: in_range_def dest: in_set_takeD)
qed

lemma in_range_non_decreasing:
  fixes ds :: "64 word list"
  assumes "in_range ds"
  shows "non_decreasing ds"
  unfolding non_decreasing_def
proof (intro allI impI)
  fix k
  assume k: "k < length ds"
  have a: "sint (sum_list (take k ds)) = (\<Sum>d\<leftarrow>take k ds. sint d)"
    by (rule sint_sum_list [OF in_range_take [OF assms]])
  have b: "sint (sum_list (take (Suc k) ds)) = (\<Sum>d\<leftarrow>take (Suc k) ds. sint d)"
    by (rule sint_sum_list [OF in_range_take [OF assms]])
  from k have "take (Suc k) ds = take k ds @ [ds ! k]"
    by (rule take_Suc_conv_app_nth)
  moreover from assms k have "0 \<le> sint (ds ! k)"
    by (simp add: in_range_def)
  ultimately show "sint (sum_list (take k ds)) \<le> sint (sum_list (take (Suc k) ds))"
    using a b by simp
qed

lemma deltas_append [simp]:
  "input_deltas (xs @ ys) = input_deltas xs @ input_deltas ys"
  "output_deltas (xs @ ys) = output_deltas xs @ output_deltas ys"
  by (simp_all add: input_deltas_def output_deltas_def)

lemma deltas_Nil [simp]:
  "input_deltas [] = []" "output_deltas [] = []"
  by (simp_all add: input_deltas_def output_deltas_def)

lemma deltas_Cons [simp]:
  "input_deltas (e # es) = map cu_InputTokens (turn_usage e) @ input_deltas es"
  "output_deltas (e # es) = map cu_OutputTokens (turn_usage e) @ output_deltas es"
  by (simp_all add: input_deltas_def output_deltas_def)

lemma call_tools_no_usage:
  "call_tools client tools blocks request s = (res, s') \<Longrightarrow>
   \<exists>evs. trace s' = trace s @ evs \<and> input_deltas evs = [] \<and> output_deltas evs = []"
proof (induction blocks arbitrary: request s)
  case Nil
  then show ?case by simp
next
  case (Cons m blocks)
  show ?case
  proof (cases "cc_Type m = ContentTypeToolUse client")
    case False
    with Cons show ?thesis by simp
  next
    case use: True
    show ?thesis
    proof (cases "tools (cc_Name m)")
      case None
      with use Cons.prems show ?thesis by simp
    next
      case (Some h)
      obtain r s1 where rh: "run_handler h m s = (r, s1)"
        by (cases "run_handler h m s")
      note tr = run_handler_trace [OF rh]
      show ?thesis
      proof (cases r)
        case (Inl err)
        with use Some rh Cons.prems tr show ?thesis
          by auto
      next
        case (Inr result)
        with use Some rh Cons.prems have
          "call_tools client tools blocks (request\<lparr>cr_Messages := cr_Messages request
              @ [tool_result_message client m result]\<rparr>) s1 = (res, s')"
          by simp
        from Cons.IH [OF this] obtain evs where
          "trace s' = trace s1 @ evs" "input_deltas evs = []" "output_deltas evs = []"
          by blast
        with tr show ?thesis
          by auto
      qed
    qed
  qed
qed

text \<open>
  The invariant of the loop: from the head of any iteration, the usage that is returned is
  the usage held at the head plus the deltas of the round trips still made.
\<close>

lemma tool_loop_usage:
  "tool_loop client tools model loops request response usage s = (Inr (Some r), s') \<Longrightarrow>
   \<exists>evs. trace s' = trace s @ evs \<and>
     InputTokens (resp_Usage r) = InputTokens usage + sum_list (input_deltas evs) \<and>
     OutputTokens (resp_Usage r) = OutputTokens usage + sum_list (output_deltas evs)"
proof (induction "6 - loops" arbitrary: loops request response usage s)
  case 0
  then have "\<not> (cs_StopReason response = ContentTypeToolUse client \<and> loops < 6)" by simp
  from tool_loop_exit [OF this] 0 show ?case
    by (auto simp: final_response_def split: list.splits)
next
  case (Suc n)
  show ?case
  proof (cases "cs_StopReason response = ContentTypeToolUse client \<and> loops < 6")
    case False
    from tool_loop_exit [OF this] Suc.prems show ?thesis
      by (auto simp: final_response_def split: list.splits)
  next
    case True
    let ?request1 = "request\<lparr>cr_Messages := cr_Messages request
        @ [\<lparr>cm_Role = ChatMessageRoleAssistant client, cm_Content = cs_Content response\<rparr>]\<rparr>"
    obtain res1 s1 where ct: "call_tools client tools (cs_Content response) ?request1 s = (res1, s1)"
      by (cases "call_tools client tools (cs_Content response) ?request1 s")
    from call_tools_no_usage [OF ct] obtain evs1 where
      e1: "trace s1 = trace s @ evs1" "input_deltas evs1 = []" "output_deltas evs1 = []"
      by blast
    show ?thesis
    proof (cases res1)
      case (Inl f)
      with True ct Suc.prems show ?thesis
        by (simp add: tool_loop_step)
    next
      case (Inr request')
      obtain r2 s2 where inv: "invokeRequest client model request' s1 = (r2, s2)"
        by (cases "invokeRequest client model request' s1")
      note tr2 = invokeRequest_trace [OF inv]
      show ?thesis
      proof (cases r2)
        case (Inl err)
        with True ct Inr inv Suc.prems show ?thesis
          by (simp add: tool_loop_step)
      next
        case r2: (Inr response')
        with True ct Inr inv Suc.prems have rec:
          "tool_loop client tools model (loops + 1) request' response'
             (add_usage response' usage) s2 = (Inr (Some r), s')"
          by (simp add: tool_loop_step)
        have "n = 6 - (loops + 1)" using Suc.hyps(2) by simp
        from Suc.hyps(1) [OF this rec] obtain evs2 where
          "trace s' = trace s2 @ evs2"
          "InputTokens (resp_Usage r)
             = InputTokens (add_usage response' usage) + sum_list (input_deltas evs2)"
          "OutputTokens (resp_Usage r)
             = OutputTokens (add_usage response' usage) + sum_list (output_deltas evs2)"
          by blast
        with e1 tr2 r2 have
          "trace s' = trace s @ (evs1 @ invokeRequest_call model request' (Inr response') # evs2)"
          "InputTokens (resp_Usage r) = InputTokens usage
             + sum_list (input_deltas (evs1 @ invokeRequest_call model request' (Inr response') # evs2))"
          "OutputTokens (resp_Usage r) = OutputTokens usage
             + sum_list (output_deltas (evs1 @ invokeRequest_call model request' (Inr response') # evs2))"
          by (simp_all add: add_usage_def)
        then show ?thesis by blast
      qed
    qed
  qed
qed

lemma Completion_usage:
  assumes c: "Completion client req s = (Inr (Some r), s')"
  shows "\<exists>evs. trace s' = trace s @ evs \<and>
     InputTokens (resp_Usage r) = sum_list (input_deltas evs) \<and>
     OutputTokens (resp_Usage r) = sum_list (output_deltas evs)"
proof (cases "ac_transformMessages client (req_Messages req)")
  case (Inl err)
  with c show ?thesis by (simp add: Completion_def)
next
  case (Inr messages)
  obtain r1 s1 where inv:
    "invokeRequest client (req_Model req) (initial_request client req messages) s = (r1, s1)"
    by (cases "invokeRequest client (req_Model req) (initial_request client req messages) s")
  note tr = invokeRequest_trace [OF inv]
  show ?thesis
  proof (cases r1)
    case (Inl err)
    with c Inr inv show ?thesis by (simp add: Completion_def)
  next
    case r1: (Inr response)
    with c Inr inv have
      "tool_loop client (tool_registry (req_Tools req)) (req_Model req) 0
         (initial_request client req messages) response (initial_usage req response) s1
         = (Inr (Some r), s')"
      by (simp add: Completion_def)
    from tool_loop_usage [OF this] obtain evs where
      "trace s' = trace s1 @ evs"
      "InputTokens (resp_Usage r)
         = InputTokens (initial_usage req response) + sum_list (input_deltas evs)"
      "OutputTokens (resp_Usage r)
         = OutputTokens (initial_usage req response) + sum_list (output_deltas evs)"
      by blast
    with tr r1 have
      "trace s' = trace s @ (invokeRequest_call (req_Model req)
          (initial_request client req messages) (Inr response) # evs)"
      "InputTokens (resp_Usage r) = sum_list (input_deltas (invokeRequest_call (req_Model req)
          (initial_request client req messages) (Inr response) # evs))"
      "OutputTokens (resp_Usage r) = sum_list (output_deltas (invokeRequest_call (req_Model req)
          (initial_request client req messages) (Inr response) # evs))"
      by (simp_all add: initial_usage_def)
    then show ?thesis by blast
  qed
qed

lemma vertex_Completion_usage:
  "vertex_Completion client req s = (Inr (Some r), s') \<Longrightarrow>
   \<exists>evs. trace s' = trace s @ evs \<and>
     InputTokens (resp_Usage r) = sum_list (vertex_input_deltas evs) \<and>
     OutputTokens (resp_Usage r) = sum_list (vertex_output_deltas evs)"
  by (auto simp: vertex_Completion_def function_call_turn_def SendMessage_def callTool_def Let_def
      text_response_def first_usage_def set_UsageMetadata_def add_UsageMetadata_def
      usage_delta_def vertex_input_deltas_def vertex_output_deltas_def
      split: if_splits sum.splits prod.splits Part.splits option.splits list.splits)

text \<open>
  C2, as the code has it. The usage that a completion returns is the sum of the usage that
  each provider round trip of the completion reported, computed in Go's \<^verbatim>\<open>int\<close>, which
  wraps around. A Vertex response without usage metadata counts as zero. When no reported
  count is negative and the sum fits, the value returned is the exact sum and the running
  total never goes down from one turn to the next.
\<close>

theorem usage_accumulates:
  "(Completion ac req s = (Inr (Some r), s') \<longrightarrow>
      (\<exists>evs. trace s' = trace s @ evs \<and>
         InputTokens (resp_Usage r) = sum_list (input_deltas evs) \<and>
         OutputTokens (resp_Usage r) = sum_list (output_deltas evs) \<and>
         (in_range (input_deltas evs) \<longrightarrow>
            non_decreasing (input_deltas evs) \<and>
            sint (InputTokens (resp_Usage r)) = (\<Sum>d\<leftarrow>input_deltas evs. sint d)) \<and>
         (in_range (output_deltas evs) \<longrightarrow>
            non_decreasing (output_deltas evs) \<and>
            sint (OutputTokens (resp_Usage r)) = (\<Sum>d\<leftarrow>output_deltas evs. sint d)))) \<and>
   (vertex_Completion vc vreq vs = (Inr (Some vr), vs') \<longrightarrow>
      (\<exists>evs. trace vs' = trace vs @ evs \<and>
         InputTokens (resp_Usage vr) = sum_list (vertex_input_deltas evs) \<and>
         OutputTokens (resp_Usage vr) = sum_list (vertex_output_deltas evs) \<and>
         (in_range (vertex_input_deltas evs) \<longrightarrow>
            non_decreasing (vertex_input_deltas evs) \<and>
            sint (InputTokens (resp_Usage vr)) = (\<Sum>d\<leftarrow>vertex_input_deltas evs. sint d)) \<and>
         (in_range (vertex_output_deltas evs) \<longrightarrow>
            non_decreasing (vertex_output_deltas evs) \<and>
            sint (OutputTokens (resp_Usage vr)) = (\<Sum>d\<leftarrow>vertex_output_deltas evs. sint d))))"
proof (intro conjI impI)
  assume "Completion ac req s = (Inr (Some r), s')"
  from Completion_usage [OF this] obtain evs where
    "trace s' = trace s @ evs"
    "InputTokens (resp_Usage r) = sum_list (input_deltas evs)"
    "OutputTokens (resp_Usage r) = sum_list (output_deltas evs)"
    by blast
  then show "\<exists>evs. trace s' = trace s @ evs \<and>
         InputTokens (resp_Usage r) = sum_list (input_deltas evs) \<and>
         OutputTokens (resp_Usage r) = sum_list (output_deltas evs) \<and>
         (in_range (input_deltas evs) \<longrightarrow>
            non_decreasing (input_deltas evs) \<and>
            sint (InputTokens (resp_Usage r)) = (\<Sum>d\<leftarrow>input_deltas evs. sint d)) \<and>
         (in_range (output_deltas evs) \<longrightarrow>
            non_decreasing (output_deltas evs) \<and>
            sint (OutputTokens (resp_Usage r)) = (\<Sum>d\<leftarrow>output_deltas evs. sint d))"
    using in_range_non_decreasing sint_sum_list by metis
next
  assume "vertex_Completion vc vreq vs = (Inr (Some vr), vs')"
  from vertex_Completion_usage [OF this] obtain evs where
    "trace vs' = trace vs @ evs"
    "InputTokens (resp_Usage vr) = sum_list (vertex_input_deltas evs)"
    "OutputTokens (resp_Usage vr) = sum_list (vertex_output_deltas evs)"
    by blast
  then show "\<exists>evs. trace vs' = trace vs @ evs \<and>
         InputTokens (resp_Usage vr) = sum_list (vertex_input_deltas evs) \<and>
         OutputTokens (resp_Usage vr) = sum_list (vertex_output_deltas evs) \<and>
         (in_range (vertex_input_deltas evs) \<longrightarrow>
            non_decreasing (vertex_input_deltas evs) \<and>
            sint (InputTokens (resp_Usage vr)) = (\<Sum>d\<leftarrow>vertex_input_deltas evs. sint d)) \<and>
         (in_range (vertex_output_deltas evs) \<longrightarrow>
            non_decreasing (vertex_output_deltas evs) \<and>
            sint (OutputTokens (resp_Usage vr)) = (\<Sum>d\<leftarrow>vertex_output_deltas evs. sint d))"
    using in_range_non_decreasing sint_sum_list by metis
qed

theorem usage_accumulates_witness:
  "fst (Completion two_turn_provider looping_request start) =
     Inr (Some \<lparr>resp_Message = Some \<lparr>msg_Role = ''assistant'', msg_Content = ''done''\<rparr>,
                resp_Messages = [],
                resp_Usage = \<lparr>mu_UserId = ''u1'', mu_Model = ''claude'', InputTokens = 20,
                              OutputTokens = 40\<rparr>\<rparr>) \<and>
   input_deltas (trace (snd (Completion two_turn_provider looping_request start))) = [10, 10] \<and>
   output_deltas (trace (snd (Completion two_turn_provider looping_request start))) = [20, 20] \<and>
   in_range [10, 10] \<and> in_range [20, 20] \<and>
   non_decreasing [10, 10] \<and> non_decreasing [20, 20] \<and>
   sint (20 :: 64 word) = (\<Sum>d\<leftarrow>[10, 10 :: 64 word]. sint d) \<and>
   sint (40 :: 64 word) = (\<Sum>d\<leftarrow>[20, 20 :: 64 word]. sint d) \<and>
   fst (vertex_Completion silent_vertex plain_request start) =
     Inr (Some \<lparr>resp_Message = Some \<lparr>msg_Role = ''assistant'', msg_Content = ''done''\<rparr>,
                resp_Messages = [],
                resp_Usage = \<lparr>mu_UserId = ''u1'', mu_Model = ''m1'', InputTokens = 3,
                              OutputTokens = 5\<rparr>\<rparr>) \<and>
   vertex_input_deltas (trace (snd (vertex_Completion silent_vertex plain_request start)))
     = [3, 0] \<and>
   vertex_output_deltas (trace (snd (vertex_Completion silent_vertex plain_request start)))
     = [5, 0] \<and>
   in_range [3, 0] \<and> in_range [5, 0] \<and> non_decreasing [3, 0] \<and> non_decreasing [5, 0]"
proof -
  let ?C = "Completion two_turn_provider looping_request start"
  let ?V = "vertex_Completion silent_vertex plain_request start"
  let ?R = "\<lparr>resp_Message = Some \<lparr>msg_Role = ''assistant'', msg_Content = ''done''\<rparr>,
             resp_Messages = [],
             resp_Usage = \<lparr>mu_UserId = ''u1'', mu_Model = ''claude'', InputTokens = 20,
                           OutputTokens = 40\<rparr>\<rparr>"
  let ?VR = "\<lparr>resp_Message = Some \<lparr>msg_Role = ''assistant'', msg_Content = ''done''\<rparr>,
              resp_Messages = [],
              resp_Usage = \<lparr>mu_UserId = ''u1'', mu_Model = ''m1'', InputTokens = 3,
                            OutputTokens = 5\<rparr>\<rparr>"
  have a: "fst ?C = Inr (Some ?R)"
    by (simp add: demo_defs anthropic_defs tool_loop.simps trim_left.simps)
  have b: "input_deltas (trace (snd ?C)) = [10, 10]"
    by (simp add: demo_defs anthropic_defs tool_loop.simps)
  have c: "output_deltas (trace (snd ?C)) = [20, 20]"
    by (simp add: demo_defs anthropic_defs tool_loop.simps)
  have d: "fst ?V = Inr (Some ?VR)"
    by (simp add: demo_defs vertex_defs)
  have e: "vertex_input_deltas (trace (snd ?V)) = [3, 0]"
    by (simp add: demo_defs vertex_defs vertex_input_deltas_def usage_delta_def)
  have f: "vertex_output_deltas (trace (snd ?V)) = [5, 0]"
    by (simp add: demo_defs vertex_defs vertex_output_deltas_def usage_delta_def)
  have g: "in_range [10, 10]" "in_range [20, 20]" "in_range [3, 0]" "in_range [5, 0]"
    by (simp_all add: in_range_def)
  from a have a': "?C = (Inr (Some ?R), snd ?C)"
    by (simp add: prod_eq_iff)
  from d have d': "?V = (Inr (Some ?VR), snd ?V)"
    by (simp add: prod_eq_iff)
  from usage_accumulates [where ac = two_turn_provider and req = looping_request and s = start
      and r = ?R and s' = "snd ?C" and vc = silent_vertex and vreq = plain_request
      and vs = start and vr = ?VR and vs' = "snd ?V"] a' d'
  obtain evs vevs where
    "trace (snd ?C) = trace (start :: (nat, anthropic_event) st) @ evs"
    "in_range (input_deltas evs) \<longrightarrow>
       non_decreasing (input_deltas evs) \<and>
       sint (InputTokens (resp_Usage ?R)) = (\<Sum>d\<leftarrow>input_deltas evs. sint d)"
    "in_range (output_deltas evs) \<longrightarrow>
       non_decreasing (output_deltas evs) \<and>
       sint (OutputTokens (resp_Usage ?R)) = (\<Sum>d\<leftarrow>output_deltas evs. sint d)"
    "trace (snd ?V) = trace (start :: (nat, vertex_event) st) @ vevs"
    "in_range (vertex_input_deltas vevs) \<longrightarrow>
       non_decreasing (vertex_input_deltas vevs) \<and>
       sint (InputTokens (resp_Usage ?VR)) = (\<Sum>d\<leftarrow>vertex_input_deltas vevs. sint d)"
    "in_range (vertex_output_deltas vevs) \<longrightarrow>
       non_decreasing (vertex_output_deltas vevs) \<and>
       sint (OutputTokens (resp_Usage ?VR)) = (\<Sum>d\<leftarrow>vertex_output_deltas vevs. sint d)"
    by blast
  with a b c d e f g show ?thesis
    by (simp add: start_def)
qed

text \<open>
  The claim as stated fails where a provider reports a negative count, and where the sum
  does not fit: the running total of input tokens goes from 10 down to 5 in the first
  run, and from \<open>2 ^ 62\<close> to \<open>2 ^ 63\<close>, which a Go \<^verbatim>\<open>int\<close> reads as \<open>- (2 ^ 63)\<close>, in the
  second.
\<close>

theorem usage_accumulates_counterexample:
  "fst (Completion shrinking_provider looping_request start) =
     Inr (Some \<lparr>resp_Message = Some \<lparr>msg_Role = ''assistant'', msg_Content = ''done''\<rparr>,
                resp_Messages = [],
                resp_Usage = \<lparr>mu_UserId = ''u1'', mu_Model = ''claude'', InputTokens = 5,
                              OutputTokens = 20\<rparr>\<rparr>) \<and>
   input_deltas (trace (snd (Completion shrinking_provider looping_request start))) = [10, - 5] \<and>
   \<not> non_decreasing [10, - 5] \<and>
   fst (Completion huge_provider looping_request start) =
     Inr (Some \<lparr>resp_Message = Some \<lparr>msg_Role = ''assistant'', msg_Content = ''done''\<rparr>,
                resp_Messages = [],
                resp_Usage = \<lparr>mu_UserId = ''u1'', mu_Model = ''claude'', InputTokens = 2 ^ 63,
                              OutputTokens = 20\<rparr>\<rparr>) \<and>
   input_deltas (trace (snd (Completion huge_provider looping_request start)))
     = [2 ^ 62, 2 ^ 62] \<and>
   \<not> non_decreasing [2 ^ 62, 2 ^ 62] \<and>
   sint (2 ^ 63 :: 64 word) = - (2 ^ 63)"
proof -
  have a: "fst (Completion shrinking_provider looping_request start) =
     Inr (Some \<lparr>resp_Message = Some \<lparr>msg_Role = ''assistant'', msg_Content = ''done''\<rparr>,
                resp_Messages = [],
                resp_Usage = \<lparr>mu_UserId = ''u1'', mu_Model = ''claude'', InputTokens = 5,
                              OutputTokens = 20\<rparr>\<rparr>)"
    by (simp add: demo_defs anthropic_defs tool_loop.simps trim_left.simps)
  have b: "input_deltas (trace (snd (Completion shrinking_provider looping_request start)))
      = [10, - 5]"
    by (simp add: demo_defs anthropic_defs tool_loop.simps)
  have c: "\<not> non_decreasing [10, - 5]"
    by (simp add: non_decreasing_def All_less_Suc eval_nat_numeral)
  have d: "fst (Completion huge_provider looping_request start) =
     Inr (Some \<lparr>resp_Message = Some \<lparr>msg_Role = ''assistant'', msg_Content = ''done''\<rparr>,
                resp_Messages = [],
                resp_Usage = \<lparr>mu_UserId = ''u1'', mu_Model = ''claude'', InputTokens = 2 ^ 63,
                              OutputTokens = 20\<rparr>\<rparr>)"
    by (simp add: demo_defs anthropic_defs tool_loop.simps trim_left.simps)
  have e: "input_deltas (trace (snd (Completion huge_provider looping_request start)))
      = [2 ^ 62, 2 ^ 62]"
    by (simp add: demo_defs anthropic_defs tool_loop.simps)
  have f: "\<not> non_decreasing [2 ^ 62, 2 ^ 62]"
    by (simp add: non_decreasing_def All_less_Suc eval_nat_numeral)
  have g: "sint (2 ^ 63 :: 64 word) = - (2 ^ 63)"
    by simp
  from a b c d e f g show ?thesis
    by blast
qed

section \<open>Storing the thread\<close>

lemma save_response_trace:
  assumes "save_response service prompt modelOps userId thread resp s = (res, s')"
  shows "(resp = None \<and> s' = s \<and> (\<exists>p. res = Inl (Panic p))) \<or>
     (\<exists>response stored rest. resp = Some response \<and>
        trace s' = trace s @ StoreThread_call (thread\<lparr>th_Messages := resp_Messages response\<rparr>) stored
          # rest \<and> (\<forall>e \<in> set rest. \<exists>u i. e = InsertModelUsage_call u i))"
proof (cases resp)
  case None
  with assms show ?thesis by (auto simp: save_response_def)
next
  case (Some response)
  let ?thread = "thread\<lparr>th_Messages := resp_Messages response\<rparr>"
  obtain stored w1 where st: "StoreThread service (world s) ?thread = (stored, w1)"
    by (cases "StoreThread service (world s) ?thread")
  show ?thesis
  proof (cases stored)
    case (Some err)
    with \<open>resp = Some response\<close> st assms show ?thesis
      by (auto simp: save_response_def Let_def)
  next
    case None
    obtain uid w2 where a: "uuid_New service w1 = (uid, w2)" by (cases "uuid_New service w1")
    obtain now w3 where b: "time_Now service w2 = (now, w3)" by (cases "time_Now service w2")
    let ?usage = "\<lparr>dmu_Id = uid, dmu_UserId = userId, dmu_Timestamp = now,
        dmu_ModelId = mo_ModelId modelOps,
        dmu_InputTokens = InputTokens (resp_Usage response),
        dmu_OutputTokens = OutputTokens (resp_Usage response)\<rparr>"
    obtain inserted w4 where c: "InsertModelUsage service w3 ?usage = (inserted, w4)"
      by (cases "InsertModelUsage service w3 ?usage")
    obtain sources w5 where d:
      "name_sources service userId (getSources service (resp_Messages response)) w4 = (sources, w5)"
      by (cases "name_sources service userId (getSources service (resp_Messages response)) w4")
    from \<open>resp = Some response\<close> st None a b c d assms have
      "trace s' = trace s @ [StoreThread_call ?thread stored, InsertModelUsage_call ?usage inserted]"
      by (auto simp: save_response_def Let_def split: if_splits)
    with \<open>resp = Some response\<close> show ?thesis by simp
  qed
qed

lemma call_model_trace:
  assumes "call_model service model prompt modelOps retrievalOptions userId thread s = (res, s')"
  shows "\<exists>request r.
     (trace s' = trace s @ [Completion_call request r] \<and>
        ((\<exists>f. r = Inl f \<and> res = Inl f) \<or> (r = Inr None \<and> (\<exists>p. res = Inl (Panic p))))) \<or>
     (\<exists>response th stored rest. r = Inr (Some response) \<and>
        trace s' = trace s @ Completion_call request r # StoreThread_call th stored # rest \<and>
        th_Messages th = resp_Messages response \<and>
        (\<forall>e \<in> set rest. \<exists>u i. e = InsertModelUsage_call u i))"
proof -
  let ?request = "completion_request service prompt modelOps retrievalOptions userId thread"
  obtain r w1 where m: "model (world s) ?request = (r, w1)"
    by (cases "model (world s) ?request")
  let ?s1 = "\<lparr>world = w1, trace = trace s @ [Completion_call ?request r]\<rparr>"
  show ?thesis
  proof (cases r)
    case (Inl f)
    with m assms have "trace s' = trace s @ [Completion_call ?request r]" "res = Inl f"
      by (auto simp: call_model_def Let_def)
    with Inl show ?thesis by blast
  next
    case (Inr resp)
    with m assms have sr: "save_response service prompt modelOps userId thread resp ?s1 = (res, s')"
      by (simp add: call_model_def Let_def)
    from save_response_trace [OF sr] show ?thesis
    proof (elim disjE exE conjE)
      fix p
      assume "resp = None" "s' = ?s1" "res = Inl (Panic p)"
      with Inr have "trace s' = trace s @ [Completion_call ?request r]" "r = Inr None"
        "\<exists>p. res = Inl (Panic p)"
        by simp_all
      then show ?thesis by blast
    next
      fix response stored rest
      assume "resp = Some response"
        "trace s' = trace ?s1
           @ StoreThread_call (thread\<lparr>th_Messages := resp_Messages response\<rparr>) stored # rest"
        "\<forall>e \<in> set rest. \<exists>u i. e = InsertModelUsage_call u i"
      with Inr have "r = Inr (Some response)"
        "trace s' = trace s @ Completion_call ?request r
           # StoreThread_call (thread\<lparr>th_Messages := resp_Messages response\<rparr>) stored # rest"
        "th_Messages (thread\<lparr>th_Messages := resp_Messages response\<rparr>) = resp_Messages response"
        "\<forall>e \<in> set rest. \<exists>u i. e = InsertModelUsage_call u i"
        by simp_all
      then show ?thesis by blast
    qed
  qed
qed

lemma PostMessage_cases:
  assumes "PostMessage service prompt s = (res, s')"
  shows "trace s' = trace s \<or>
     (\<exists>model modelOps retrievalOptions userId thread w.
        call_model service model prompt modelOps retrievalOptions userId thread (s\<lparr>world := w\<rparr>)
          = (res, s'))"
  using assms
  by (auto simp: PostMessage_def split: sum.splits prod.splits option.splits)

text \<open>
  C8. Whatever \<^verbatim>\<open>PostMessage\<close> does, \<^verbatim>\<open>StoreThread\<close> is called only when the completion
  has returned a response and no error, directly after it, and with the messages of that
  response. When the completion returns an error, or neither a response nor an error, the
  call of the completion is the only thing the handler did: nothing is stored, and the
  request ends with that error, or with a panic.
\<close>

theorem thread_stored_after_success:
  assumes "PostMessage service prompt s = (res, s')"
  shows "\<exists>evs. trace s' = trace s @ evs \<and>
     (\<forall>thread stored. StoreThread_call thread stored \<in> set evs \<longrightarrow>
        (\<exists>request response rest.
           evs = Completion_call request (Inr (Some response)) # StoreThread_call thread stored # rest \<and>
           th_Messages thread = resp_Messages response)) \<and>
     (\<forall>request f. Completion_call request (Inl f) \<in> set evs \<longrightarrow>
        evs = [Completion_call request (Inl f)] \<and> res = Inl f) \<and>
     (\<forall>request. Completion_call request (Inr None) \<in> set evs \<longrightarrow>
        evs = [Completion_call request (Inr None)] \<and> (\<exists>p. res = Inl (Panic p)))"
proof -
  from PostMessage_cases [OF assms] show ?thesis
  proof (elim disjE exE)
    assume "trace s' = trace s"
    then show ?thesis
      by (intro exI [of _ "[]"]) simp
  next
    fix model modelOps retrievalOptions userId thread w
    assume "call_model service model prompt modelOps retrievalOptions userId thread
        (s\<lparr>world := w\<rparr>) = (res, s')"
    from call_model_trace [OF this] obtain request r where
      "(trace s' = trace s @ [Completion_call request r] \<and>
          ((\<exists>f. r = Inl f \<and> res = Inl f) \<or> (r = Inr None \<and> (\<exists>p. res = Inl (Panic p))))) \<or>
       (\<exists>response th stored rest. r = Inr (Some response) \<and>
          trace s' = trace s @ Completion_call request r # StoreThread_call th stored # rest \<and>
          th_Messages th = resp_Messages response \<and>
          (\<forall>e \<in> set rest. \<exists>u i. e = InsertModelUsage_call u i))"
      by (elim exE) simp
    then show ?thesis
    proof (elim disjE exE conjE)
      fix f
      assume "trace s' = trace s @ [Completion_call request r]" "r = Inl f" "res = Inl f"
      then show ?thesis
        by (intro exI [of _ "[Completion_call request r]"]) simp
    next
      fix p
      assume "trace s' = trace s @ [Completion_call request r]" "r = Inr None" "res = Inl (Panic p)"
      then show ?thesis
        by (intro exI [of _ "[Completion_call request r]"]) simp
    next
      fix response th stored rest
      assume r: "r = Inr (Some response)"
        and tr: "trace s' = trace s @ Completion_call request r # StoreThread_call th stored # rest"
        and th: "th_Messages th = resp_Messages response"
        and rest: "\<forall>e \<in> set rest. \<exists>u i. e = InsertModelUsage_call u i"
      from rest have no_store: "StoreThread_call t st \<notin> set rest" for t st
        by blast
      from rest have no_call: "Completion_call rq rr \<notin> set rest" for rq rr
        by blast
      from r tr th show ?thesis
        by (intro exI [of _ "Completion_call request r # StoreThread_call th stored # rest"])
          (simp add: no_store no_call)
    qed
  qed
qed

theorem thread_stored_after_success_witness:
  "fst (PostMessage (demo_service failing_model [] (\<lambda>lt xs. xs)) demo_prompt start)
     = Inl (Error ''provider down'') \<and>
   filter is_store
       (trace (snd (PostMessage (demo_service failing_model [] (\<lambda>lt xs. xs)) demo_prompt start)))
     = [] \<and>
   filter is_store
       (trace (snd (PostMessage (demo_service answering_model [] (\<lambda>lt xs. xs)) demo_prompt start)))
     = [StoreThread_call
          \<lparr>th_Id = 7, th_UserId = ''u1'', th_CollectionId = 1, th_Timestamp = 0,
           th_Messages = [\<lparr>msg_Role = ''user'', msg_Content = ''hello''\<rparr>,
                          \<lparr>msg_Role = ''assistant'', msg_Content = ''hi''\<rparr>]\<rparr> None] \<and>
   (\<exists>request response rest.
      trace (snd (PostMessage (demo_service answering_model [] (\<lambda>lt xs. xs)) demo_prompt start))
        = Completion_call request (Inr (Some response))
          # StoreThread_call
              \<lparr>th_Id = 7, th_UserId = ''u1'', th_CollectionId = 1, th_Timestamp = 0,
               th_Messages = [\<lparr>msg_Role = ''user'', msg_Content = ''hello''\<rparr>,
                              \<lparr>msg_Role = ''assistant'', msg_Content = ''hi''\<rparr>]\<rparr> None
          # rest)"
proof -
  let ?F = "PostMessage (demo_service failing_model [] (\<lambda>lt xs. xs)) demo_prompt start"
  let ?A = "PostMessage (demo_service answering_model [] (\<lambda>lt xs. xs)) demo_prompt start"
  let ?T = "\<lparr>th_Id = 7, th_UserId = ''u1'', th_CollectionId = 1, th_Timestamp = 0,
             th_Messages = [\<lparr>msg_Role = ''user'', msg_Content = ''hello''\<rparr>,
                            \<lparr>msg_Role = ''assistant'', msg_Content = ''hi''\<rparr>]\<rparr>"
  have a: "fst ?F = Inl (Error ''provider down'')"
    by (simp add: demo_defs chat_defs)
  have b: "filter is_store (trace (snd ?F)) = []"
    by (simp add: demo_defs chat_defs)
  have c: "filter is_store (trace (snd ?A)) = [StoreThread_call ?T None]"
    by (simp add: demo_defs chat_defs completion_request_def)
  then have "StoreThread_call ?T None \<in> set (filter is_store (trace (snd ?A)))"
    by simp
  then have d: "StoreThread_call ?T None \<in> set (trace (snd ?A))"
    by simp
  from thread_stored_after_success [of "demo_service answering_model [] (\<lambda>lt xs. xs)"
      demo_prompt start "fst ?A" "snd ?A"]
  obtain evs where
    "trace (snd ?A) = trace (start :: (nat, nat chat_event) st) @ evs"
    "\<forall>thread stored. StoreThread_call thread stored \<in> set evs \<longrightarrow>
       (\<exists>request response rest.
          evs = Completion_call request (Inr (Some response)) # StoreThread_call thread stored # rest \<and>
          th_Messages thread = resp_Messages response)"
    by auto
  with d have "\<exists>request response rest.
      trace (snd ?A) = Completion_call request (Inr (Some response)) # StoreThread_call ?T None # rest"
    by (simp add: start_def) blast
  with a b c show ?thesis
    by blast
qed

section \<open>The order of the sources\<close>

lemma source_less_asym: "source_less a b \<Longrightarrow> \<not> source_less b a"
  by (auto simp: source_less_def split: if_splits)

lemma source_less_trans_le:
  "\<not> source_less b a \<Longrightarrow> \<not> source_less c b \<Longrightarrow> \<not> source_less c a"
  by (auto simp: source_less_def split: if_splits)

lemma not_source_less_iff:
  "\<not> source_less b a \<longleftrightarrow>
     sr_DocumentId a < sr_DocumentId b \<or>
     (sr_DocumentId a = sr_DocumentId b \<and> sr_Position a \<le> sr_Position b)"
  by (auto simp: source_less_def)

lemma set_insert_after [simp]: "set (insert_after lt x ys) = insert x (set ys)"
  by (induction ys) auto

lemma mset_insert_after [simp]: "mset (insert_after lt x ys) = add_mset x (mset ys)"
  by (induction ys) auto

lemma sorted_insert_after:
  "sorted_wrt (\<lambda>a b. \<not> source_less b a) ys \<Longrightarrow>
   sorted_wrt (\<lambda>a b. \<not> source_less b a) (insert_after source_less x ys)"
proof (induction ys)
  case Nil
  then show ?case by simp
next
  case (Cons y ys)
  show ?case
  proof (cases "source_less x y")
    case True
    then have xy: "\<not> source_less y x" by (rule source_less_asym)
    from Cons.prems have "\<forall>z \<in> set ys. \<not> source_less z y" by simp
    with xy have "\<forall>z \<in> set ys. \<not> source_less z x"
      using source_less_trans_le by blast
    with True xy Cons.prems show ?thesis by simp
  next
    case False
    with Cons show ?thesis by auto
  qed
qed

lemma unstable_sort_contract: "sort_Slice_contract unstable_sort"
proof -
  have "mset (unstable_sort source_less xs) = mset xs \<and>
      sorted_wrt (\<lambda>a b. \<not> source_less b a) (unstable_sort source_less xs)" for xs
    by (induction xs) (simp_all add: unstable_sort_def sorted_insert_after)
  then show ?thesis
    by (simp add: sort_Slice_contract_def)
qed

lemma sorted_three:
  assumes "mset ys = mset [x, y, z]"
    and "sorted_wrt (\<lambda>a b. \<not> lt b a) ys"
    and "lt z y" "lt y x" "lt z x"
    and "distinct [x, y, z]"
  shows "ys = [z, y, x]"
proof -
  from assms(1) have len: "length ys = length [x, y, z]"
    by (rule mset_eq_length)
  then obtain a b c where ys: "ys = [a, b, c]"
    by (auto simp: length_Suc_conv)
  from assms(1) have "set ys = set [x, y, z]"
    by (rule mset_eq_setD)
  with ys have s: "{a, b, c} = {x, y, z}"
    by simp
  from assms(1,6) have "distinct ys"
    by (metis mset_eq_imp_distinct_iff)
  with ys have d: "a \<noteq> b" "a \<noteq> c" "b \<noteq> c"
    by simp_all
  from assms(2) ys have o: "\<not> lt b a" "\<not> lt c a" "\<not> lt c b"
    by simp_all
  from s have "a \<in> {x, y, z}" "b \<in> {x, y, z}" "c \<in> {x, y, z}"
    by blast+
  with d o assms(3,4,5) have "a = z \<and> b = y \<and> c = x"
    by auto
  with ys show ?thesis by simp
qed

lemma get_sources_sorted:
  assumes "get_sources service userId prompt retrievalOptions w parameters = (Inr out, w')"
  shows "\<exists>query response w1.
           Search service w \<lparr>q_UserId = userId, q_CollectionId = p_CollectionId prompt,
               q_Query = query, q_Limit = ro_Documents retrievalOptions,
               q_Threshold = ro_Threshold retrievalOptions\<rparr> = (Inr response, w1) \<and>
           json_Marshal service (sort_Slice service source_less (Results response)) = Inr out"
  using assms
  by (auto simp: get_sources_def Let_def split: option.splits json.splits prod.splits sum.splits)

text \<open>
  C3, as the code has it. \<^verbatim>\<open>sort.Slice\<close> is the standard library's; it is taken by what
  its documentation promises. Whatever the handler returns is the serialization of the
  search results rearranged so that they are grouped by document id ascending and, within a
  document, by position ascending; the items \<open>{docB,1}, {docA,2}, {docA,1}\<close> come out as
  \<open>{docA,1}, {docA,2}, {docB,1}\<close>. Nothing is promised about the order of items that tie
  on both keys.
\<close>

theorem sources_ordered:
  assumes "sort_Slice_contract (sort_Slice service)"
  shows "(get_sources service userId prompt retrievalOptions w parameters = (Inr out, w') \<longrightarrow>
           (\<exists>query response w1 sources.
              Search service w \<lparr>q_UserId = userId, q_CollectionId = p_CollectionId prompt,
                  q_Query = query, q_Limit = ro_Documents retrievalOptions,
                  q_Threshold = ro_Threshold retrievalOptions\<rparr> = (Inr response, w1) \<and>
              json_Marshal service sources = Inr out \<and>
              mset sources = mset (Results response) \<and>
              by_document_then_position sources)) \<and>
         sort_Slice service source_less
             [evidence ''c1'' ''docB'' 1, evidence ''c2'' ''docA'' 2, evidence ''c3'' ''docA'' 1]
           = [evidence ''c3'' ''docA'' 1, evidence ''c2'' ''docA'' 2, evidence ''c1'' ''docB'' 1]"
proof (intro conjI impI)
  assume "get_sources service userId prompt retrievalOptions w parameters = (Inr out, w')"
  from get_sources_sorted [OF this] obtain query response w1 where
    s: "Search service w \<lparr>q_UserId = userId, q_CollectionId = p_CollectionId prompt,
          q_Query = query, q_Limit = ro_Documents retrievalOptions,
          q_Threshold = ro_Threshold retrievalOptions\<rparr> = (Inr response, w1)"
      "json_Marshal service (sort_Slice service source_less (Results response)) = Inr out"
    by blast
  let ?sources = "sort_Slice service source_less (Results response)"
  from assms have "mset ?sources = mset (Results response)"
    and "sorted_wrt (\<lambda>a b. \<not> source_less b a) ?sources"
    by (simp_all add: sort_Slice_contract_def)
  then have "mset ?sources = mset (Results response)" "by_document_then_position ?sources"
    by (simp_all add: by_document_then_position_def not_source_less_iff)
  with s show "\<exists>query response w1 sources.
      Search service w \<lparr>q_UserId = userId, q_CollectionId = p_CollectionId prompt,
          q_Query = query, q_Limit = ro_Documents retrievalOptions,
          q_Threshold = ro_Threshold retrievalOptions\<rparr> = (Inr response, w1) \<and>
      json_Marshal service sources = Inr out \<and>
      mset sources = mset (Results response) \<and>
      by_document_then_position sources"
    by blast
next
  let ?x = "evidence ''c1'' ''docB'' 1" and ?y = "evidence ''c2'' ''docA'' 2"
    and ?z = "evidence ''c3'' ''docA'' 1"
  from assms have "mset (sort_Slice service source_less [?x, ?y, ?z]) = mset [?x, ?y, ?z]"
    and "sorted_wrt (\<lambda>a b. \<not> source_less b a) (sort_Slice service source_less [?x, ?y, ?z])"
    by (simp_all add: sort_Slice_contract_def)
  moreover have "source_less ?z ?y" "source_less ?y ?x" "source_less ?z ?x"
    by (simp_all add: source_less_def evidence_def less_char_def)
  moreover have "distinct [?x, ?y, ?z]"
    by (simp add: evidence_def)
  ultimately show "sort_Slice service source_less [?x, ?y, ?z] = [?z, ?y, ?x]"
    by (rule sorted_three)
qed

theorem sources_ordered_witness:
  "sort_Slice_contract (sort_Slice (sorting_service
      [evidence ''c1'' ''docB'' 1, evidence ''c2'' ''docA'' 2, evidence ''c3'' ''docA'' 1])) \<and>
   get_sources (sorting_service
        [evidence ''c1'' ''docB'' 1, evidence ''c2'' ''docA'' 2, evidence ''c3'' ''docA'' 1])
       ''u1'' demo_prompt \<lparr>ro_Documents = 3, ro_Threshold = 0\<rparr> 0 [(''prompt'', JString ''q'')]
     = (Inr ''c3;c2;c1;'', 0) \<and>
   (\<exists>sources.
      json_Marshal (sorting_service
          [evidence ''c1'' ''docB'' 1, evidence ''c2'' ''docA'' 2, evidence ''c3'' ''docA'' 1])
        sources = Inr ''c3;c2;c1;'' \<and>
      by_document_then_position sources) \<and>
   unstable_sort source_less
       [evidence ''c1'' ''docB'' 1, evidence ''c2'' ''docA'' 2, evidence ''c3'' ''docA'' 1]
     = [evidence ''c3'' ''docA'' 1, evidence ''c2'' ''docA'' 2, evidence ''c1'' ''docB'' 1]"
proof -
  let ?found = "[evidence ''c1'' ''docB'' 1, evidence ''c2'' ''docA'' 2, evidence ''c3'' ''docA'' 1]"
  let ?S = "sorting_service ?found"
  have a: "sort_Slice_contract (sort_Slice ?S)"
    using unstable_sort_contract by (simp add: sorting_service_def demo_service_def)
  have b: "get_sources ?S ''u1'' demo_prompt \<lparr>ro_Documents = 3, ro_Threshold = 0\<rparr> 0
      [(''prompt'', JString ''q'')] = (Inr ''c3;c2;c1;'', 0)"
    by (simp add: get_sources_def sorting_service_def demo_defs unstable_sort_def source_less_def
        less_char_def)
  have c: "sort_Slice ?S = unstable_sort"
    by (simp add: sorting_service_def demo_service_def)
  from sources_ordered [OF a, of "''u1''" demo_prompt "\<lparr>ro_Documents = 3, ro_Threshold = 0\<rparr>" 0
      "[(''prompt'', JString ''q'')]" "''c3;c2;c1;''" 0] b
  have "\<exists>sources. json_Marshal ?S sources = Inr ''c3;c2;c1;'' \<and> by_document_then_position sources"
    and "sort_Slice ?S source_less ?found
      = [evidence ''c3'' ''docA'' 1, evidence ''c2'' ''docA'' 2, evidence ''c1'' ''docB'' 1]"
    by blast+
  with a b c show ?thesis
    by simp
qed

text \<open>
  The claim as stated fails in its last part. Of thirteen results of one document, found in
  the order \<open>c1, c2, ...\<close> with \<open>c1\<close> and \<open>c2\<close> at the same position, a sort that
  keeps the promise of \<^verbatim>\<open>sort.Slice\<close> serializes \<open>c2\<close> before \<open>c1\<close>. (Since Go 1.19
  the library's own \<^verbatim>\<open>sort.Slice\<close> sorts up to twelve elements by insertion, which
  keeps ties in place, and longer slices by a pattern-defeating quicksort. Traced by hand
  on these thirteen, its first partition exchanges \<open>c1\<close> with the pivot \<open>c7\<close>, which
  carries \<open>c1\<close> behind \<open>c2\<close>, and the order it ends with is the one below.)
\<close>

theorem sources_ordered_counterexample:
  "sort_Slice_contract (sort_Slice (sorting_service tied_results)) \<and>
   map sr_Id (take 2 tied_results) = [''c1'', ''c2''] \<and>
   map sr_DocumentId (take 2 tied_results) = [''docA'', ''docA''] \<and>
   map sr_Position (take 2 tied_results) = [9, 9] \<and>
   fst (get_sources (sorting_service tied_results) ''u1'' demo_prompt
       \<lparr>ro_Documents = 13, ro_Threshold = 0\<rparr> 0 [(''prompt'', JString ''q'')])
     = json_Marshal (sorting_service tied_results)
         [evidence ''c3'' ''docA'' 1, evidence ''c4'' ''docA'' 2, evidence ''c5'' ''docA'' 3,
          evidence ''c6'' ''docA'' 4, evidence ''c7'' ''docA'' 5, evidence ''c8'' ''docA'' 6,
          evidence ''c9'' ''docA'' 7, evidence ''c10'' ''docA'' 8, evidence ''c2'' ''docA'' 9,
          evidence ''c1'' ''docA'' 9, evidence ''c11'' ''docA'' 10, evidence ''c12'' ''docA'' 11,
          evidence ''c13'' ''docA'' 12] \<and>
   fst (get_sources (sorting_service tied_results) ''u1'' demo_prompt
       \<lparr>ro_Documents = 13, ro_Threshold = 0\<rparr> 0 [(''prompt'', JString ''q'')])
     = Inr ''c3;c4;c5;c6;c7;c8;c9;c10;c2;c1;c11;c12;c13;''"
proof -
  let ?S = "sorting_service tied_results"
  have "sort_Slice_contract (sort_Slice ?S)"
    using unstable_sort_contract by (simp add: sorting_service_def demo_service_def)
  moreover have "map sr_Id (take 2 tied_results) = [''c1'', ''c2'']"
    and "map sr_DocumentId (take 2 tied_results) = [''docA'', ''docA'']"
    and "map sr_Position (take 2 tied_results) = [9, 9]"
    by (simp_all add: tied_results_def evidence_def)
  moreover have "fst (get_sources ?S ''u1'' demo_prompt \<lparr>ro_Documents = 13, ro_Threshold = 0\<rparr> 0
      [(''prompt'', JString ''q'')]) = Inr ''c3;c4;c5;c6;c7;c8;c9;c10;c2;c1;c11;c12;c13;''"
    by (simp add: get_sources_def sorting_service_def demo_defs unstable_sort_def source_less_def
        tied_results_def)
  moreover have "json_Marshal ?S
      [evidence ''c3'' ''docA'' 1, evidence ''c4'' ''docA'' 2, evidence ''c5'' ''docA'' 3,
       evidence ''c6'' ''docA'' 4, evidence ''c7'' ''docA'' 5, evidence ''c8'' ''docA'' 6,
       evidence ''c9'' ''docA'' 7, evidence ''c10'' ''docA'' 8, evidence ''c2'' ''docA'' 9,
       evidence ''c1'' ''docA'' 9, evidence ''c11'' ''docA'' 10, evidence ''c12'' ''docA'' 11,
       evidence ''c13'' ''docA'' 12]
      = Inr ''c3;c4;c5;c6;c7;c8;c9;c10;c2;c1;c11;c12;c13;''"
    by (simp add: sorting_service_def demo_defs)
  ultimately show ?thesis
    by simp
qed

section \<open>A turn without content\<close>

text \<open>
  C6. What the code does with a provider turn that has no content parts. In the Vertex
  adapter a first turn without candidates, or without parts, makes \<^verbatim>\<open>Completion\<close> return
  neither a response nor an error, and \<^verbatim>\<open>PostMessage\<close>, which checks the error only, then
  dereferences the nil response. A second turn (after a tool call) without parts is indexed
  without a check. The Anthropic adapter indexes \<^verbatim>\<open>response.Content[0]\<close> without a check.
\<close>

theorem empty_turn_outcomes:
  "fst (vertex_Completion empty_vertex plain_request start) = Inr None \<and>
   fst (vertex_Completion no_candidates_vertex plain_request start) = Inr None \<and>
   fst (PostMessage (demo_service (as_model (vertex_Completion empty_vertex)) [] (\<lambda>lt xs. xs))
          demo_prompt start)
     = Inl (Panic ''invalid memory address or nil pointer dereference'') \<and>
   fst (vertex_Completion empty_second_vertex plain_request start)
     = Inl (Panic ''index out of range [0] with length 0'') \<and>
   fst (Completion empty_provider plain_request start)
     = Inl (Panic ''index out of range [0] with length 0'')"
proof -
  have "fst (vertex_Completion empty_vertex plain_request start) = Inr None"
    by (simp add: demo_defs vertex_defs)
  moreover have "fst (vertex_Completion no_candidates_vertex plain_request start) = Inr None"
    by (simp add: demo_defs vertex_defs)
  moreover have
    "fst (PostMessage (demo_service (as_model (vertex_Completion empty_vertex)) [] (\<lambda>lt xs. xs))
          demo_prompt start)
     = Inl (Panic ''invalid memory address or nil pointer dereference'')"
    by (simp add: demo_defs vertex_defs chat_defs completion_request_def)
  moreover have "fst (vertex_Completion empty_second_vertex plain_request start)
     = Inl (Panic ''index out of range [0] with length 0'')"
    by (simp add: demo_defs vertex_defs)
  moreover have "fst (Completion empty_provider plain_request start)
     = Inl (Panic ''index out of range [0] with length 0'')"
    by (simp add: demo_defs anthropic_defs tool_loop.simps)
  ultimately show ?thesis
    by blast
qed

section \<open>A first turn of plain text\<close>

lemma anthropic_first_turn_text:
  assumes "ac_transformMessages ac (req_Messages req) = Inr messages"
    and "invokeRequest ac (req_Model req) (initial_request ac req messages) s = (Inr response, s1)"
    and "cs_StopReason response \<noteq> ContentTypeToolUse ac"
    and "cs_Content response = c # rest"
  shows "Completion ac req s =
      (Inr (Some \<lparr>resp_Message = Some \<lparr>msg_Role = ac_RoleAssistant ac,
                                      msg_Content = TrimSpace (cc_Text c)\<rparr>,
                  resp_Messages = [],
                  resp_Usage = \<lparr>mu_UserId = req_UserId req, mu_Model = cs_Model response,
                                InputTokens = cu_InputTokens (cs_Usage response),
                                OutputTokens = cu_OutputTokens (cs_Usage response)\<rparr>\<rparr>), s1)"
  using assms
  by (simp add: Completion_def tool_loop_exit final_response_def initial_usage_def)

lemma vertex_first_turn_text:
  assumes "req_Messages vreq \<noteq> []"
    and "vc_transformToHistory vc (req_Messages vreq) = Inr history"
    and "history \<noteq> []"
    and "SendMessage vc (generative_model vc vreq) (butlast history) (gc_Parts (last history)) vs
           = (Inr gen, vs1)"
    and "Candidates gen = cand # cands"
    and "gc_Parts (cand_Content cand) = Text answer # parts"
  shows "vertex_Completion vc vreq vs =
      (Inr (Some \<lparr>resp_Message = Some \<lparr>msg_Role = vc_RoleAssistant vc, msg_Content = answer\<rparr>,
                  resp_Messages = [],
                  resp_Usage = \<lparr>mu_UserId = req_UserId vreq,
                                mu_Model = CutPrefix (req_Model vreq) (vc_modelPrefix vc),
                                InputTokens = fst (usage_delta gen),
                                OutputTokens = snd (usage_delta gen)\<rparr>\<rparr>), vs1)"
  using assms
  by (simp add: vertex_Completion_def text_response_def first_usage_def set_UsageMetadata_def
      usage_delta_def split: option.splits)

text \<open>
  C9, as the code has it. When the first turn is not a tool-use turn, the answer of the
  Anthropic adapter is the text of the first content block with leading and trailing white
  space removed (\<^verbatim>\<open>strings.TrimSpace\<close>), and the usage is the usage of that turn. When the
  first part of the first Vertex response is text, the answer of the Vertex adapter is
  exactly that text, and the usage is what that response reports (zero without metadata).
  One provider round trip is made: the state returned is the state after the first call.
\<close>

theorem first_turn_text:
  "(ac_transformMessages ac (req_Messages req) = Inr messages \<and>
    invokeRequest ac (req_Model req) (initial_request ac req messages) s = (Inr response, s1) \<and>
    cs_StopReason response \<noteq> ContentTypeToolUse ac \<and> cs_Content response = c # rest \<longrightarrow>
      Completion ac req s =
        (Inr (Some \<lparr>resp_Message = Some \<lparr>msg_Role = ac_RoleAssistant ac,
                                        msg_Content = TrimSpace (cc_Text c)\<rparr>,
                    resp_Messages = [],
                    resp_Usage = \<lparr>mu_UserId = req_UserId req, mu_Model = cs_Model response,
                                  InputTokens = cu_InputTokens (cs_Usage response),
                                  OutputTokens = cu_OutputTokens (cs_Usage response)\<rparr>\<rparr>), s1)) \<and>
   (req_Messages vreq \<noteq> [] \<and> vc_transformToHistory vc (req_Messages vreq) = Inr history \<and>
    history \<noteq> [] \<and>
    SendMessage vc (generative_model vc vreq) (butlast history) (gc_Parts (last history)) vs
      = (Inr gen, vs1) \<and>
    Candidates gen = cand # cands \<and> gc_Parts (cand_Content cand) = Text answer # parts \<longrightarrow>
      vertex_Completion vc vreq vs =
        (Inr (Some \<lparr>resp_Message = Some \<lparr>msg_Role = vc_RoleAssistant vc, msg_Content = answer\<rparr>,
                    resp_Messages = [],
                    resp_Usage = \<lparr>mu_UserId = req_UserId vreq,
                                  mu_Model = CutPrefix (req_Model vreq) (vc_modelPrefix vc),
                                  InputTokens = fst (usage_delta gen),
                                  OutputTokens = snd (usage_delta gen)\<rparr>\<rparr>), vs1))"
  using anthropic_first_turn_text [of ac req messages s response s1 c rest]
    vertex_first_turn_text [of vreq vc history vs gen vs1 cand cands answer parts]
  by blast

theorem first_turn_text_witness:
  "ac_transformMessages plain_provider (req_Messages plain_request)
     = Inr [\<lparr>cm_Role = ''user'', cm_Content = [text_block ''hello'']\<rparr>] \<and>
   invokeRequest plain_provider (req_Model plain_request)
       (initial_request plain_provider plain_request
          [\<lparr>cm_Role = ''user'', cm_Content = [text_block ''hello'']\<rparr>]) start
     = (Inr (claude_response ''end_turn'' [text_block '' hi '']),
        snd (invokeRequest plain_provider (req_Model plain_request)
          (initial_request plain_provider plain_request
             [\<lparr>cm_Role = ''user'', cm_Content = [text_block ''hello'']\<rparr>]) start)) \<and>
   cs_StopReason (claude_response ''end_turn'' [text_block '' hi ''])
     \<noteq> ContentTypeToolUse plain_provider \<and>
   cs_Content (claude_response ''end_turn'' [text_block '' hi '']) = [text_block '' hi ''] \<and>
   fst (Completion plain_provider plain_request start) =
     Inr (Some \<lparr>resp_Message = Some \<lparr>msg_Role = ''assistant'', msg_Content = ''hi''\<rparr>,
                resp_Messages = [],
                resp_Usage = \<lparr>mu_UserId = ''u1'', mu_Model = ''claude'',
                              InputTokens = 10, OutputTokens = 20\<rparr>\<rparr>) \<and>
   req_Messages plain_request \<noteq> [] \<and>
   vc_transformToHistory plain_vertex (req_Messages plain_request)
     = Inr [\<lparr>gc_Role = ''user'', gc_Parts = [Text ''hello'']\<rparr>] \<and>
   SendMessage plain_vertex (generative_model plain_vertex plain_request) [] [Text ''hello''] start
     = (Inr (gen_parts [Text '' hi '']),
        snd (SendMessage plain_vertex (generative_model plain_vertex plain_request) []
          [Text ''hello''] start)) \<and>
   fst (vertex_Completion plain_vertex plain_request start) =
     Inr (Some \<lparr>resp_Message = Some \<lparr>msg_Role = ''assistant'', msg_Content = '' hi ''\<rparr>,
                resp_Messages = [],
                resp_Usage = \<lparr>mu_UserId = ''u1'', mu_Model = ''m1'',
                              InputTokens = 3, OutputTokens = 5\<rparr>\<rparr>)"
proof -
  let ?M = "[\<lparr>cm_Role = ''user'', cm_Content = [text_block ''hello'']\<rparr>]"
  let ?R = "claude_response ''end_turn'' [text_block '' hi '']"
  let ?H = "[\<lparr>gc_Role = ''user'', gc_Parts = [Text ''hello'']\<rparr>]"
  let ?I = "invokeRequest plain_provider (req_Model plain_request)
      (initial_request plain_provider plain_request ?M) start"
  let ?S = "SendMessage plain_vertex (generative_model plain_vertex plain_request) []
      [Text ''hello''] start"
  have a: "ac_transformMessages plain_provider (req_Messages plain_request) = Inr ?M"
    by (simp add: demo_defs)
  have b: "?I = (Inr ?R, snd ?I)"
    by (simp add: demo_defs invokeRequest_def Let_def)
  have c: "cs_StopReason ?R \<noteq> ContentTypeToolUse plain_provider"
    by (simp add: demo_defs)
  have d: "cs_Content ?R = text_block '' hi '' # []"
    by (simp add: demo_defs)
  have e: "req_Messages plain_request \<noteq> []"
    by (simp add: demo_defs)
  have f: "vc_transformToHistory plain_vertex (req_Messages plain_request) = Inr ?H"
    by (simp add: demo_defs)
  have g: "SendMessage plain_vertex (generative_model plain_vertex plain_request) (butlast ?H)
      (gc_Parts (last ?H)) start = (Inr (gen_parts [Text '' hi '']), snd ?S)"
    by (simp add: demo_defs SendMessage_def)
  have h: "Candidates (gen_parts [Text '' hi ''])
      = \<lparr>cand_Content = \<lparr>gc_Role = ''model'', gc_Parts = [Text '' hi '']\<rparr>\<rparr> # []"
    by (simp add: demo_defs)
  have i: "gc_Parts (cand_Content \<lparr>cand_Content = \<lparr>gc_Role = ''model'', gc_Parts = [Text '' hi '']\<rparr>\<rparr>)
      = Text '' hi '' # []"
    by simp
  have t: "TrimSpace (cc_Text (text_block '' hi '')) = ''hi''"
    by (simp add: demo_defs TrimSpace_def space_encodings_def trim_left.simps)
  have u: "usage_delta (gen_parts [Text '' hi '']) = (3, 5)"
    by (simp add: usage_delta_def demo_defs)
  from first_turn_text [where ac = plain_provider and req = plain_request and messages = ?M
      and s = start and response = ?R and ?s1.0 = "snd ?I" and c = "text_block '' hi ''"
      and rest = "[]" and vc = plain_vertex and vreq = plain_request and history = ?H
      and vs = start and gen = "gen_parts [Text '' hi '']" and ?vs1.0 = "snd ?S"
      and cand = "\<lparr>cand_Content = \<lparr>gc_Role = ''model'', gc_Parts = [Text '' hi '']\<rparr>\<rparr>"
      and cands = "[]" and answer = "'' hi ''" and parts = "[]"]
    a b c d e f g h i
  have "Completion plain_provider plain_request start =
      (Inr (Some \<lparr>resp_Message = Some \<lparr>msg_Role = ac_RoleAssistant plain_provider,
                                      msg_Content = TrimSpace (cc_Text (text_block '' hi ''))\<rparr>,
                  resp_Messages = [],
                  resp_Usage = \<lparr>mu_UserId = req_UserId plain_request, mu_Model = cs_Model ?R,
                                InputTokens = cu_InputTokens (cs_Usage ?R),
                                OutputTokens = cu_OutputTokens (cs_Usage ?R)\<rparr>\<rparr>), snd ?I)"
    and "vertex_Completion plain_vertex plain_request start =
      (Inr (Some \<lparr>resp_Message = Some \<lparr>msg_Role = vc_RoleAssistant plain_vertex,
                                      msg_Content = '' hi ''\<rparr>,
                  resp_Messages = [],
                  resp_Usage = \<lparr>mu_UserId = req_UserId plain_request,
                                mu_Model = CutPrefix (req_Model plain_request)
                                  (vc_modelPrefix plain_vertex),
                                InputTokens = fst (usage_delta (gen_parts [Text '' hi ''])),
                                OutputTokens = snd (usage_delta (gen_parts [Text '' hi '']))\<rparr>\<rparr>),
       snd ?S)"
    by blast+
  with a b c d e f g t u show ?thesis
    by (simp add: demo_defs CutPrefix_def)
qed

text \<open>
  The claim as stated fails for the Anthropic adapter: the text \<^verbatim>\<open>" hi "\<close> of the first
  turn is answered as \<^verbatim>\<open>"hi"\<close>.
\<close>

theorem first_turn_text_counterexample:
  "cs_Content (claude_response ''end_turn'' [text_block '' hi '']) = [text_block '' hi ''] \<and>
   cc_Text (text_block '' hi '') = '' hi '' \<and>
   fst (Completion plain_provider plain_request start) =
     Inr (Some \<lparr>resp_Message = Some \<lparr>msg_Role = ''assistant'', msg_Content = ''hi''\<rparr>,
                resp_Messages = [],
                resp_Usage = \<lparr>mu_UserId = ''u1'', mu_Model = ''claude'',
                              InputTokens = 10, OutputTokens = 20\<rparr>\<rparr>) \<and>
   ''hi'' \<noteq> '' hi ''"
  by (simp add: demo_defs anthropic_defs tool_loop.simps trim_left.simps)

section \<open>Properties of the Vertex adapter\<close>

text \<open>
  C10. A request whose message list is empty is answered with the error
  \<^verbatim>\<open>no messages\<close>; the state, and with it the trace of provider calls, is returned
  unchanged, so no provider call is made.
\<close>

theorem vertex_empty_messages:
  "req_Messages req = [] \<Longrightarrow> vertex_Completion client req s = (Inl (Error ''no messages''), s)"
  by (simp add: vertex_Completion_def)

theorem vertex_empty_messages_witness:
  "req_Messages (demo_request [] []) = [] \<and>
   vertex_Completion (demo_vertex (\<lambda>n. Inl ''unreachable'') (Inr ''{}'')) (demo_request [] [])
       \<lparr>world = 0, trace = []\<rparr>
     = (Inl (Error ''no messages''), \<lparr>world = 0, trace = []\<rparr>)"
  using vertex_empty_messages [of "demo_request [] []"
      "demo_vertex (\<lambda>n. Inl ''unreachable'') (Inr ''{}'')" "\<lparr>world = 0, trace = []\<rparr>"]
  by (simp add: demo_request_def)

end
